theory Spec2Isabelle
  imports Complex_Main "HOL-Library.Word"
begin

section \<open>The MNIST trainer model (mnist/distributed/trainer/model.py)\<close>

text \<open>
  The module builds a TensorFlow dataflow graph for a three-layer perceptron and hands
  the harness references into it. The Python functions are embedded as HOL functions
  that build the same graph; the graph is a datatype, and \<open>run\<close> gives the meaning
  of the library operations the module composes, as the TensorFlow documentation
  states it. Python exceptions and TensorFlow runtime errors are values of a sum type.
  A float (Python's double, TensorFlow's float32) is idealised as a real number:
  rounding error, infinities and all NaNs but the mean of an empty vector are outside
  the model.
\<close>

subsection \<open>Constants\<close>

definition HIDDEN1 :: nat where "HIDDEN1 = 128"
definition HIDDEN2 :: nat where "HIDDEN2 = 32"
definition NUM_CLASSES :: nat where "NUM_CLASSES = 10"
definition IMAGE_SIZE :: nat where "IMAGE_SIZE = 28"
definition IMAGE_PIXELS :: nat where "IMAGE_PIXELS = IMAGE_SIZE * IMAGE_SIZE"

subsection \<open>Errors\<close>

datatype py_error = IndexError | KeyError | AttributeError | ValueError | SystemExit
  | InvalidArgumentError | NotModelled

definition then_do :: "py_error + 'a \<Rightarrow> ('a \<Rightarrow> py_error + 'b) \<Rightarrow> py_error + 'b" where
  "then_do r f = (case r of Inl e \<Rightarrow> Inl e | Inr x \<Rightarrow> f x)"

subsection \<open>Formatting helpers\<close>

text \<open>
  \<open>'%.3f' % x\<close> prints the decimal with three fractional digits nearest to the exact
  value of \<open>x\<close>, an exact tie going to the even last digit, with the sign of \<open>x\<close> in
  front.
\<close>

definition round_half_even :: "real \<Rightarrow> int" where
  "round_half_even y =
     (let f = \<lfloor>y\<rfloor>; d = y - of_int f
      in if d < 1 / 2 then f else if 1 / 2 < d then f + 1
         else if even f then f else f + 1)"

definition digit_char :: "nat \<Rightarrow> char" where
  "digit_char d = ''0123456789'' ! d"

fun decimal :: "nat \<Rightarrow> string" where
  "decimal n = (if n < 10 then [digit_char n] else decimal (n div 10) @ [digit_char (n mod 10)])"

declare decimal.simps [simp del]

definition fixed3 :: "nat \<Rightarrow> string" where
  "fixed3 n = decimal (n div 1000) @ ''.'' @
     [digit_char (n div 100 mod 10), digit_char (n div 10 mod 10), digit_char (n mod 10)]"

definition format_3f :: "real \<Rightarrow> string" where
  "format_3f x = (if x < 0 then ''-'' else '''') @ fixed3 (nat (round_half_even (\<bar>x\<bar> * 1000)))"

text \<open>\<open>xs[i]\<close> for a literal index \<open>i \<ge> 0\<close>: IndexError past the end.\<close>

definition py_index :: "'a list \<Rightarrow> nat \<Rightarrow> py_error + 'a" where
  "py_index xs i = (if i < length xs then Inr (xs ! i) else Inl IndexError)"

definition format_metric_values :: "real list \<Rightarrow> py_error + string" where
  "format_metric_values metric_values =
     then_do (py_index metric_values 0) (\<lambda>l.
     then_do (py_index metric_values 1) (\<lambda>a.
       Inr (''loss: '' @ format_3f l @ '', accuracy: '' @ format_3f a)))"

definition format_prediction_values :: "real list \<Rightarrow> py_error + string" where
  "format_prediction_values prediction =
     then_do (py_index prediction 0) (\<lambda>p. Inr (format_3f p))"

text \<open>The doubles that the literals \<open>0.1234\<close>, \<open>0.9876\<close> and \<open>3.14159\<close> denote.\<close>

definition float_0_1234 :: real where
  "float_0_1234 = 8891907104280307 / 72057594037927936"
definition float_0_9876 :: real where
  "float_0_9876 = 2223877495995551 / 2251799813685248"
definition float_3_14159 :: real where
  "float_3_14159 = 3537115888337719 / 1125899906842624"

subsection \<open>Tensor values and serialized examples\<close>

datatype dtype = DT_FLOAT | DT_INT32 | DT_INT64 | DT_STRING | DT_BOOL

text \<open>
  The values the module's tensors take: a float matrix is the list of its rows; \<open>FNaN\<close>
  is the float scalar NaN.
\<close>

datatype tval =
    FMat "real list list"
  | FVec "real list"
  | FScalar real
  | FNaN
  | I32Vec "32 word list"
  | I64Vec "64 word list"
  | I32Scalar "32 word"
  | BVec "bool list"
  | SVec "string list"

text \<open>
  A \<open>tf.train.Example\<close> message maps feature names to typed value lists. Its wire
  encoding is protobuf's; the decoder is a parameter of the session.
\<close>

datatype feature = BytesList "string list" | FloatList "real list" | Int64List "64 word list"

type_synonym example = "string \<Rightarrow> feature option"

datatype feature_spec =
  FixedLenFeature (fl_shape: "nat list") (fl_dtype: dtype) (fl_default: "feature option")

fun feature_dtype :: "feature \<Rightarrow> dtype" where
  "feature_dtype (BytesList _) = DT_STRING"
| "feature_dtype (FloatList _) = DT_FLOAT"
| "feature_dtype (Int64List _) = DT_INT64"

fun feature_size :: "feature \<Rightarrow> nat" where
  "feature_size (BytesList xs) = length xs"
| "feature_size (FloatList xs) = length xs"
| "feature_size (Int64List xs) = length xs"

fun bytes_values :: "feature \<Rightarrow> string list" where
  "bytes_values (BytesList xs) = xs"
| "bytes_values _ = []"

fun float_values :: "feature \<Rightarrow> real list" where
  "float_values (FloatList xs) = xs"
| "float_values _ = []"

fun int64_values :: "feature \<Rightarrow> 64 word list" where
  "int64_values (Int64List xs) = xs"
| "int64_values _ = []"

fun all_ok :: "(py_error + 'a) list \<Rightarrow> py_error + 'a list" where
  "all_ok [] = Inr []"
| "all_ok (r # rs) = then_do r (\<lambda>x. then_do (all_ok rs) (\<lambda>xs. Inr (x # xs)))"

definition then_do2 ::
  "py_error + 'a \<Rightarrow> py_error + 'b \<Rightarrow> ('a \<Rightarrow> 'b \<Rightarrow> py_error + 'c) \<Rightarrow> py_error + 'c" where
  "then_do2 r1 r2 f = then_do r1 (\<lambda>x. then_do r2 (\<lambda>y. f x y))"

subsection \<open>TensorFlow kernels\<close>

text \<open>
  \<open>tf.parse_example\<close> with fixed-length features: a feature the record lacks takes
  the default, and is an error without one; a feature the record has must be of the
  declared type and hold as many values as the declared shape. The module declares a
  scalar int64, a scalar string and a rank-1 float feature; other declarations are not
  modelled.
\<close>

fun dense_feature :: "feature_spec \<Rightarrow> feature option \<Rightarrow> py_error + feature" where
  "dense_feature spec None =
     (case fl_default spec of None \<Rightarrow> Inl InvalidArgumentError | Some d \<Rightarrow> Inr d)"
| "dense_feature spec (Some f) =
     (if feature_dtype f = fl_dtype spec \<and> feature_size f = prod_list (fl_shape spec)
      then Inr f else Inl InvalidArgumentError)"

definition stack_features :: "feature_spec \<Rightarrow> feature list \<Rightarrow> py_error + tval" where
  "stack_features spec fs =
     (if fl_shape spec = [] \<and> fl_dtype spec = DT_INT64 then Inr (I64Vec (concat (map int64_values fs)))
      else if fl_shape spec = [] \<and> fl_dtype spec = DT_STRING then Inr (SVec (concat (map bytes_values fs)))
      else if length (fl_shape spec) = 1 \<and> fl_dtype spec = DT_FLOAT then Inr (FMat (map float_values fs))
      else Inl NotModelled)"

definition decode_all :: "(string \<Rightarrow> example option) \<Rightarrow> string list \<Rightarrow> py_error + example list" where
  "decode_all decode rs =
     all_ok (map (\<lambda>r. case decode r of None \<Rightarrow> Inl InvalidArgumentError | Some ex \<Rightarrow> Inr ex) rs)"

definition parse_column :: "example list \<Rightarrow> string \<times> feature_spec \<Rightarrow> py_error + tval" where
  "parse_column exs kf =
     then_do (all_ok (map (\<lambda>ex. dense_feature (snd kf) (ex (fst kf))) exs)) (stack_features (snd kf))"

fun parse_example_kernel ::
  "(string \<Rightarrow> example option) \<Rightarrow> (string \<times> feature_spec) list \<Rightarrow> tval \<Rightarrow>
   py_error + (string \<Rightarrow> tval option)" where
  "parse_example_kernel decode features (SVec rs) =
     then_do (decode_all decode rs) (\<lambda>exs.
     then_do (all_ok (map (parse_column exs) features)) (\<lambda>cols.
       Inr (map_of (zip (map fst features) cols))))"
| "parse_example_kernel decode features _ = Inl InvalidArgumentError"

text \<open>Matrix product, bias addition, \<open>nn.relu\<close>.\<close>

definition dot :: "real list \<Rightarrow> real list \<Rightarrow> real" where
  "dot xs ys = sum_list (map2 (*) xs ys)"

definition mat_cols :: "real list list \<Rightarrow> nat" where
  "mat_cols W = (case W of [] \<Rightarrow> 0 | r # _ \<Rightarrow> length r)"

definition column :: "real list list \<Rightarrow> nat \<Rightarrow> real list" where
  "column W j = map (\<lambda>r. r ! j) W"

definition vec_mat :: "real list \<Rightarrow> real list list \<Rightarrow> real list" where
  "vec_mat x W = map (\<lambda>j. dot x (column W j)) [0..<mat_cols W]"

fun tf_matmul :: "tval \<Rightarrow> tval \<Rightarrow> py_error + tval" where
  "tf_matmul (FMat X) (FMat W) =
     (if list_all (\<lambda>x. length x = length W) X \<and> list_all (\<lambda>r. length r = mat_cols W) W
      then Inr (FMat (map (\<lambda>x. vec_mat x W) X)) else Inl InvalidArgumentError)"
| "tf_matmul _ _ = Inl InvalidArgumentError"

fun tf_bias_add :: "tval \<Rightarrow> tval \<Rightarrow> py_error + tval" where
  "tf_bias_add (FMat X) (FVec b) =
     (if list_all (\<lambda>x. length x = length b) X
      then Inr (FMat (map (\<lambda>x. map2 (+) x b) X)) else Inl InvalidArgumentError)"
| "tf_bias_add _ _ = Inl InvalidArgumentError"

fun tf_relu :: "tval \<Rightarrow> py_error + tval" where
  "tf_relu (FMat X) = Inr (FMat (map (map (max 0)) X))"
| "tf_relu (FVec x) = Inr (FVec (map (max 0) x))"
| "tf_relu (FScalar x) = Inr (FScalar (max 0 x))"
| "tf_relu FNaN = Inr FNaN"
| "tf_relu _ = Inl InvalidArgumentError"

text \<open>
  \<open>tf.to_int64\<close> on integer vectors; class indices read from an int32 or int64
  vector.
\<close>

fun tf_to_int64 :: "tval \<Rightarrow> py_error + tval" where
  "tf_to_int64 (I32Vec xs) = Inr (I64Vec (map scast xs))"
| "tf_to_int64 (I64Vec xs) = Inr (I64Vec xs)"
| "tf_to_int64 _ = Inl NotModelled"

fun class_indices :: "tval \<Rightarrow> int list option" where
  "class_indices (I32Vec xs) = Some (map sint xs)"
| "class_indices (I64Vec xs) = Some (map sint xs)"
| "class_indices _ = None"

definition labels_fit :: "real list list \<Rightarrow> int list \<Rightarrow> bool" where
  "labels_fit rows ls \<longleftrightarrow>
     length ls = length rows \<and> list_all2 (\<lambda>r l. 0 \<le> l \<and> l < int (length r)) rows ls"

text \<open>
  \<open>tf.nn.softmax\<close> and \<open>tf.nn.sparse_softmax_cross_entropy_with_logits\<close>: per row,
  minus the logarithm of the softmax probability of the labelled class.
\<close>

definition softmax_row :: "real list \<Rightarrow> real list" where
  "softmax_row r = map (\<lambda>x. exp x / sum_list (map exp r)) r"

definition xent_row :: "real list \<Rightarrow> int \<Rightarrow> real" where
  "xent_row r l = - ln (softmax_row r ! nat l)"

fun tf_softmax :: "tval \<Rightarrow> py_error + tval" where
  "tf_softmax (FMat X) = Inr (FMat (map softmax_row X))"
| "tf_softmax _ = Inl InvalidArgumentError"

definition tf_sparse_softmax_cross_entropy_with_logits :: "tval \<Rightarrow> tval \<Rightarrow> py_error + tval" where
  "tf_sparse_softmax_cross_entropy_with_logits logits labels =
     (case (logits, class_indices labels) of
        (FMat rows, Some ls) \<Rightarrow>
          if labels_fit rows ls then Inr (FVec (map2 xent_row rows ls))
          else Inl InvalidArgumentError
      | _ \<Rightarrow> Inl InvalidArgumentError)"

text \<open>
  \<open>tf.reduce_mean\<close> over all elements (NaN for none), \<open>tf.nn.in_top_k\<close> (the target
  class is in the top \<open>k\<close> when fewer than \<open>k\<close> classes score strictly higher),
  \<open>tf.cast\<close> from bool to float, \<open>tf.argmax\<close> along the rows (the first index of a
  largest entry).
\<close>

definition mean :: "real list \<Rightarrow> tval" where
  "mean xs = (if xs = [] then FNaN else FScalar (sum_list xs / real (length xs)))"

fun tf_reduce_mean :: "tval \<Rightarrow> py_error + tval" where
  "tf_reduce_mean (FVec xs) = Inr (mean xs)"
| "tf_reduce_mean (FMat X) = Inr (mean (concat X))"
| "tf_reduce_mean (FScalar x) = Inr (FScalar x)"
| "tf_reduce_mean FNaN = Inr FNaN"
| "tf_reduce_mean _ = Inl InvalidArgumentError"

definition in_top_k_row :: "nat \<Rightarrow> real list \<Rightarrow> int \<Rightarrow> bool" where
  "in_top_k_row k r l \<longleftrightarrow> length (filter (\<lambda>x. r ! nat l < x) r) < k"

definition tf_in_top_k :: "nat \<Rightarrow> tval \<Rightarrow> tval \<Rightarrow> py_error + tval" where
  "tf_in_top_k k predictions targets =
     (case (predictions, class_indices targets) of
        (FMat rows, Some ls) \<Rightarrow>
          if labels_fit rows ls then Inr (BVec (map2 (in_top_k_row k) rows ls))
          else Inl InvalidArgumentError
      | _ \<Rightarrow> Inl InvalidArgumentError)"

fun tf_cast :: "dtype \<Rightarrow> tval \<Rightarrow> py_error + tval" where
  "tf_cast DT_FLOAT (BVec bs) = Inr (FVec (map (\<lambda>b. if b then 1 else 0) bs))"
| "tf_cast DT_FLOAT (FMat X) = Inr (FMat X)"
| "tf_cast DT_FLOAT (FVec x) = Inr (FVec x)"
| "tf_cast DT_FLOAT (FScalar x) = Inr (FScalar x)"
| "tf_cast _ _ = Inl NotModelled"

definition argmax_row :: "real list \<Rightarrow> 64 word" where
  "argmax_row r = of_nat (length (takeWhile (\<lambda>x. x \<noteq> Max (set r)) r))"

fun tf_argmax :: "nat \<Rightarrow> tval \<Rightarrow> py_error + tval" where
  "tf_argmax dimension (FMat X) =
     (if dimension = 1 \<and> list_all (\<lambda>r. r \<noteq> []) X then Inr (I64Vec (map argmax_row X))
      else if dimension = 1 then Inl InvalidArgumentError else Inl NotModelled)"
| "tf_argmax dimension _ = Inl NotModelled"

subsection \<open>The dataflow graph\<close>

text \<open>
  A tensor is the node that computes it. \<open>ReadExamples i\<close> stands for the \<open>i\<close>-th
  result of \<open>util.read_examples\<close>; \<open>ParseExample s f k\<close> is
  the output of \<open>tf.parse_example s f\<close> for the feature \<open>k\<close>. A variable carries the
  identifier the graph gave it, its name, its initializer and whether it is trainable.
\<close>

datatype activation_fn = nn_relu

datatype var_init = InitValue tval | InitXavier nat nat | InitZeros nat

datatype tensor =
    Placeholder dtype "nat option list"
  | ReadExamples nat "string list" int bool "int option"
  | ParseExample tensor "(string \<times> feature_spec) list" string
  | Variable nat string var_init bool
  | MatMul tensor tensor
  | BiasAdd tensor tensor
  | Relu tensor
  | ToInt64 tensor
  | SparseSoftmaxCrossEntropyWithLogits tensor tensor
  | ReduceMean tensor
  | InTopK tensor tensor nat
  | Cast tensor dtype
  | Softmax tensor
  | ArgMax tensor nat
  | StreamingMeanValue tensor tensor

datatype optimizer = GradientDescentOptimizer real

datatype operation =
    Minimize optimizer tensor "tensor list" "tensor option"
  | StreamingMeanUpdate tensor tensor tensor

text \<open>
  A tensor's \<open>name\<close> identifies it in its graph; the model takes the tensor itself for
  its name. \<open>json.dumps\<close> of a flat dict of names is modelled by the dict it encodes.
\<close>

datatype tensor_name = NameOf tensor

datatype collection_item =
    TensorItem tensor
  | SummaryItem string tensor
  | JsonItem "string \<Rightarrow> tensor_name option"

record graph =
  next_id :: nat
  collections :: "string \<Rightarrow> collection_item list"

definition empty_graph :: graph where
  "empty_graph = \<lparr>next_id = 0, collections = (\<lambda>_. [])\<rparr>"

definition add_to_collection :: "string \<Rightarrow> collection_item \<Rightarrow> graph \<Rightarrow> graph" where
  "add_to_collection name item g =
     g\<lparr>collections := (collections g)(name := collections g name @ [item])\<rparr>"

definition get_collection_tensors :: "graph \<Rightarrow> string \<Rightarrow> tensor list" where
  "get_collection_tensors g name =
     concat (map (\<lambda>item. case item of TensorItem t \<Rightarrow> [t] | _ \<Rightarrow> []) (collections g name))"

text \<open>\<open>tf.Variable\<close>, and the local variables that metrics create.\<close>

definition tf_Variable :: "var_init \<Rightarrow> string \<Rightarrow> bool \<Rightarrow> graph \<Rightarrow> tensor \<times> graph" where
  "tf_Variable init name trainable g =
     (let v = Variable (next_id g) name init trainable;
          g1 = add_to_collection ''variables'' (TensorItem v) (g\<lparr>next_id := Suc (next_id g)\<rparr>)
      in (v, if trainable then add_to_collection ''trainable_variables'' (TensorItem v) g1 else g1))"

definition local_variable :: "var_init \<Rightarrow> string \<Rightarrow> graph \<Rightarrow> tensor \<times> graph" where
  "local_variable init name g =
     (let v = Variable (next_id g) name init False
      in (v, add_to_collection ''local_variables'' (TensorItem v) (g\<lparr>next_id := Suc (next_id g)\<rparr>)))"

text \<open>
  The last dimension of a tensor's static shape, for the tensors the module feeds into
  a layer.
\<close>

fun last_dim :: "tensor \<Rightarrow> nat option" where
  "last_dim (ParseExample _ features key) =
     (case map_of features key of
        None \<Rightarrow> None
      | Some spec \<Rightarrow> if fl_shape spec = [] then None else Some (last (fl_shape spec)))"
| "last_dim (MatMul _ (Variable _ _ (InitXavier m n) _)) = Some n"
| "last_dim (BiasAdd x _) = last_dim x"
| "last_dim (Relu x) = last_dim x"
| "last_dim (Softmax x) = last_dim x"
| "last_dim _ = None"

text \<open>
  \<open>tf.contrib.layers.fully_connected(inputs, num_outputs, activation_fn=nn.relu)\<close>
  creates a weight matrix and a bias vector, multiplies, adds, and applies the
  activation function unless it is None. A call that does not pass \<open>activation_fn\<close>
  gets the default of the signature.
\<close>

definition fully_connected_default_activation_fn :: "activation_fn option" where
  "fully_connected_default_activation_fn = Some nn_relu"

definition layers_fully_connected ::
  "tensor \<Rightarrow> nat \<Rightarrow> activation_fn option \<Rightarrow> graph \<Rightarrow> py_error + (tensor \<times> graph)" where
  "layers_fully_connected inputs num_outputs activation_fn g =
     (case last_dim inputs of
        None \<Rightarrow> Inl ValueError
      | Some n \<Rightarrow>
          (let (w, g1) = tf_Variable (InitXavier n num_outputs) ''weights'' True g;
               (b, g2) = tf_Variable (InitZeros num_outputs) ''biases'' True g1;
               outputs = BiasAdd (MatMul inputs w) b
           in Inr (case activation_fn of None \<Rightarrow> outputs | Some nn_relu \<Rightarrow> Relu outputs, g2)))"

text \<open>\<open>tf.parse_example\<close> returns a dict with one tensor per declared feature.\<close>

definition tf_parse_example ::
  "tensor \<Rightarrow> (string \<times> feature_spec) list \<Rightarrow> (string \<Rightarrow> tensor option)" where
  "tf_parse_example serialized features =
     map_of (map (\<lambda>kf. (fst kf, ParseExample serialized features (fst kf))) features)"

definition py_getitem :: "(string \<Rightarrow> 'a option) \<Rightarrow> string \<Rightarrow> py_error + 'a" where
  "py_getitem d k = (case d k of None \<Rightarrow> Inl KeyError | Some v \<Rightarrow> Inr v)"

text \<open>
  The variables a tensor is computed from, and \<open>Optimizer.minimize\<close>: the variables
  to train are the graph's trainable variables; it raises ValueError when there are
  none or when the loss depends on none of them (whether every path from the loss to a
  variable is differentiable is not modelled).
\<close>

fun node_variables :: "tensor \<Rightarrow> tensor list" where
  "node_variables (Placeholder dt sh) = []"
| "node_variables (ReadExamples i p b sh e) = []"
| "node_variables (ParseExample t f k) = node_variables t"
| "node_variables (Variable i nm init tr) = [Variable i nm init tr]"
| "node_variables (MatMul a b) = node_variables a @ node_variables b"
| "node_variables (BiasAdd a b) = node_variables a @ node_variables b"
| "node_variables (Relu a) = node_variables a"
| "node_variables (ToInt64 a) = node_variables a"
| "node_variables (SparseSoftmaxCrossEntropyWithLogits a b) = node_variables a @ node_variables b"
| "node_variables (ReduceMean a) = node_variables a"
| "node_variables (InTopK a b k) = node_variables a @ node_variables b"
| "node_variables (Cast a dt) = node_variables a"
| "node_variables (Softmax a) = node_variables a"
| "node_variables (ArgMax a d) = node_variables a"
| "node_variables (StreamingMeanValue a b) = node_variables a @ node_variables b"

definition minimize :: "optimizer \<Rightarrow> tensor \<Rightarrow> tensor option \<Rightarrow> graph \<Rightarrow> py_error + operation" where
  "minimize opt loss_t gs g =
     (let var_list = get_collection_tensors g ''trainable_variables''
      in if list_ex (\<lambda>v. v \<in> set (node_variables loss_t)) var_list
         then Inr (Minimize opt loss_t var_list gs) else Inl ValueError)"

text \<open>
  \<open>metric_ops.streaming_mean\<close>: two local variables, the running total and count,
  the tensor that reads their quotient and the operation that folds a value in.
  \<open>tf.scalar_summary\<close> registers a summary of a tensor under a tag.
\<close>

definition streaming_mean :: "tensor \<Rightarrow> graph \<Rightarrow> (tensor \<times> operation) \<times> graph" where
  "streaming_mean values g =
     (let (tot, g1) = local_variable (InitValue (FScalar 0)) ''total'' g;
          (cnt, g2) = local_variable (InitValue (FScalar 0)) ''count'' g1
      in ((StreamingMeanValue tot cnt, StreamingMeanUpdate values tot cnt), g2))"

definition scalar_summary :: "string \<Rightarrow> tensor \<Rightarrow> graph \<Rightarrow> graph" where
  "scalar_summary tag t g = add_to_collection ''summaries'' (SummaryItem tag t) g"

subsection \<open>Running the graph\<close>

text \<open>
  A session holds the value of every variable, what the input pipeline or the feed
  dict delivers for a source node, and the protobuf decoder.
\<close>

record session =
  var_value :: "tensor \<Rightarrow> tval"
  feed :: "tensor \<Rightarrow> tval option"
  decode_example :: "string \<Rightarrow> example option"

definition fetch_source :: "session \<Rightarrow> tensor \<Rightarrow> py_error + tval" where
  "fetch_source s t = (case feed s t of None \<Rightarrow> Inl InvalidArgumentError | Some v \<Rightarrow> Inr v)"

fun streaming_mean_value :: "tval \<Rightarrow> tval \<Rightarrow> py_error + tval" where
  "streaming_mean_value (FScalar tot) (FScalar cnt) =
     Inr (FScalar (if 0 < cnt then tot / cnt else 0))"
| "streaming_mean_value _ _ = Inl InvalidArgumentError"

fun run :: "session \<Rightarrow> tensor \<Rightarrow> py_error + tval" where
  "run s (Placeholder dt sh) = fetch_source s (Placeholder dt sh)"
| "run s (ReadExamples i p b sh e) = fetch_source s (ReadExamples i p b sh e)"
| "run s (ParseExample t features key) =
     then_do (then_do (run s t) (parse_example_kernel (decode_example s) features))
       (\<lambda>parsed. py_getitem parsed key)"
| "run s (Variable i nm init tr) = Inr (var_value s (Variable i nm init tr))"
| "run s (MatMul a b) = then_do2 (run s a) (run s b) tf_matmul"
| "run s (BiasAdd a b) = then_do2 (run s a) (run s b) tf_bias_add"
| "run s (Relu a) = then_do (run s a) tf_relu"
| "run s (ToInt64 a) = then_do (run s a) tf_to_int64"
| "run s (SparseSoftmaxCrossEntropyWithLogits a b) =
     then_do2 (run s a) (run s b) tf_sparse_softmax_cross_entropy_with_logits"
| "run s (ReduceMean a) = then_do (run s a) tf_reduce_mean"
| "run s (InTopK a b k) = then_do2 (run s a) (run s b) (tf_in_top_k k)"
| "run s (Cast a dt) = then_do (run s a) (tf_cast dt)"
| "run s (Softmax a) = then_do (run s a) tf_softmax"
| "run s (ArgMax a d) = then_do (run s a) (tf_argmax d)"
| "run s (StreamingMeanValue a b) = then_do2 (run s a) (run s b) streaming_mean_value"

text \<open>
  Variable initialization: the initial value given, zeros, or random weights drawn by
  the initializer \<open>rnd\<close> (variable, row, column).
\<close>

fun initial_value :: "(nat \<Rightarrow> nat \<Rightarrow> nat \<Rightarrow> real) \<Rightarrow> nat \<Rightarrow> var_init \<Rightarrow> tval" where
  "initial_value rnd i (InitValue v) = v"
| "initial_value rnd i (InitZeros n) = FVec (replicate n 0)"
| "initial_value rnd i (InitXavier m n) = FMat (map (\<lambda>r. map (rnd i r) [0..<n]) [0..<m])"

definition initialize_all_variables :: "(nat \<Rightarrow> nat \<Rightarrow> nat \<Rightarrow> real) \<Rightarrow> session \<Rightarrow> session" where
  "initialize_all_variables rnd s =
     s\<lparr>var_value := (\<lambda>v. case v of Variable i nm init tr \<Rightarrow> initial_value rnd i init
                              | _ \<Rightarrow> var_value s v)\<rparr>"

text \<open>
  Running an operation changes the session. A gradient descent step replaces every
  trained variable \<open>v\<close> by \<open>v - learning_rate * gradient\<close> and then adds one to the
  global step. The gradients come from the library's automatic differentiation,
  the parameter \<open>grad\<close> (session, loss, variable). The global step here is an int32
  scalar, whose addition wraps around.
\<close>

fun apply_gradient_descent :: "real \<Rightarrow> tval \<Rightarrow> tval \<Rightarrow> py_error + tval" where
  "apply_gradient_descent lr (FMat W) (FMat G) =
     (if map length G = map length W
      then Inr (FMat (map2 (\<lambda>w g. map2 (\<lambda>x d. x - lr * d) w g) W G)) else Inl InvalidArgumentError)"
| "apply_gradient_descent lr (FVec w) (FVec g) =
     (if length g = length w then Inr (FVec (map2 (\<lambda>x d. x - lr * d) w g))
      else Inl InvalidArgumentError)"
| "apply_gradient_descent lr (FScalar x) (FScalar d) = Inr (FScalar (x - lr * d))"
| "apply_gradient_descent lr _ _ = Inl InvalidArgumentError"

fun assign_add_one :: "tval \<Rightarrow> py_error + tval" where
  "assign_add_one (I32Scalar w) = Inr (I32Scalar (w + 1))"
| "assign_add_one (FScalar x) = Inr (FScalar (x + 1))"
| "assign_add_one _ = Inl InvalidArgumentError"

definition assign :: "tensor \<Rightarrow> tval \<Rightarrow> session \<Rightarrow> session" where
  "assign v x s = s\<lparr>var_value := (var_value s)(v := x)\<rparr>"

fun assign_all :: "(tensor \<times> tval) list \<Rightarrow> session \<Rightarrow> session" where
  "assign_all [] s = s"
| "assign_all ((v, x) # rest) s = assign_all rest (assign v x s)"

fun streaming_mean_update :: "tval \<Rightarrow> tval \<Rightarrow> tval \<Rightarrow> py_error + (tval \<times> tval)" where
  "streaming_mean_update (FScalar x) (FScalar tot) (FScalar cnt) =
     Inr (FScalar (tot + x), FScalar (cnt + 1))"
| "streaming_mean_update (FVec xs) (FScalar tot) (FScalar cnt) =
     Inr (FScalar (tot + sum_list xs), FScalar (cnt + real (length xs)))"
| "streaming_mean_update _ _ _ = Inl InvalidArgumentError"

fun run_op ::
  "(session \<Rightarrow> tensor \<Rightarrow> tensor \<Rightarrow> py_error + tval) \<Rightarrow> session \<Rightarrow> operation \<Rightarrow> py_error + session" where
  "run_op grad s (Minimize (GradientDescentOptimizer lr) loss_t var_list gs) =
     then_do (all_ok (map (\<lambda>v. then_do (grad s loss_t v) (apply_gradient_descent lr (var_value s v)))
                var_list)) (\<lambda>new_values.
       let s1 = assign_all (zip var_list new_values) s
       in case gs of
            None \<Rightarrow> Inr s1
          | Some g \<Rightarrow> then_do (assign_add_one (var_value s1 g)) (\<lambda>n. Inr (assign g n s1)))"
| "run_op grad s (StreamingMeanUpdate values tot cnt) =
     then_do (run s values) (\<lambda>x.
     then_do (streaming_mean_update x (var_value s tot) (var_value s cnt)) (\<lambda>tc.
       Inr (assign cnt (snd tc) (assign tot (fst tc) s))))"

text \<open>\<open>n\<close> invocations of an operation in a row, stopping at the first that fails.\<close>

fun run_op_times ::
  "(session \<Rightarrow> tensor \<Rightarrow> tensor \<Rightarrow> py_error + tval) \<Rightarrow> operation \<Rightarrow> nat \<Rightarrow> session \<Rightarrow>
   py_error + session" where
  "run_op_times grad opn 0 s = Inr s"
| "run_op_times grad opn (Suc n) s =
     then_do (run_op_times grad opn n s) (\<lambda>s'. run_op grad s' opn)"

subsection \<open>The module's functions\<close>

text \<open>
  Modelled from the spec: \<open>util.read_examples\<close> is not among the sources. It is the
  external input-reading stage that produces a raw batch of serialized examples from
  the data paths, shuffled or not and limited to a number of epochs or not as the
  caller asks. The model keeps the arguments of the call in the nodes it returns; the
  second of them is the batch of serialized records.
\<close>

definition read_examples :: "string list \<Rightarrow> int \<Rightarrow> bool \<Rightarrow> int option \<Rightarrow> tensor \<times> tensor" where
  "read_examples data_paths batch_size shuffle num_epochs =
     (ReadExamples 0 data_paths batch_size shuffle num_epochs,
      ReadExamples 1 data_paths batch_size shuffle num_epochs)"

definition feature_map :: "(string \<times> feature_spec) list" where
  "feature_map =
     [(''labels'', FixedLenFeature [] DT_INT64 (Some (Int64List [- 1]))),
      (''images'', FixedLenFeature [IMAGE_PIXELS] DT_FLOAT None)]"

definition parse_examples :: "tensor \<Rightarrow> (string \<Rightarrow> tensor option)" where
  "parse_examples examples_t = tf_parse_example examples_t feature_map"

definition inference :: "tensor \<Rightarrow> nat \<Rightarrow> nat \<Rightarrow> graph \<Rightarrow> py_error + (tensor \<times> graph)" where
  "inference images hidden1_units hidden2_units g =
     then_do (layers_fully_connected images hidden1_units
                fully_connected_default_activation_fn g) (\<lambda>(hidden1_t, g1).
     then_do (layers_fully_connected hidden1_t hidden2_units
                fully_connected_default_activation_fn g1) (\<lambda>(hidden2_t, g2).
       layers_fully_connected hidden2_t NUM_CLASSES fully_connected_default_activation_fn g2))"

definition loss :: "tensor \<Rightarrow> tensor \<Rightarrow> tensor" where
  "loss logits labels =
     (let labels = ToInt64 labels;
          cross_entropy = SparseSoftmaxCrossEntropyWithLogits logits labels
      in ReduceMean cross_entropy)"

definition training ::
  "tensor \<Rightarrow> real \<Rightarrow> graph \<Rightarrow> py_error + ((operation \<times> tensor) \<times> graph)" where
  "training loss_op lr g =
     (let optimizer = GradientDescentOptimizer lr;
          (global_step_t, g1) = tf_Variable (InitValue (I32Scalar 0)) ''global_step'' False g
      in then_do (minimize optimizer loss_op (Some global_step_t) g1) (\<lambda>train_op.
           Inr ((train_op, global_step_t), g1)))"

definition evaluation :: "tensor \<Rightarrow> tensor \<Rightarrow> tensor" where
  "evaluation logits labels =
     (let correct = InTopK logits labels 1
      in ReduceMean (Cast correct DT_FLOAT))"

record GraphReferences =
  examples :: "tensor option"
  train :: "operation option"
  global_step :: "tensor option"
  metric_updates :: "operation list"
  metric_values :: "tensor list"
  keys :: "tensor option"
  predictions :: "tensor list"

definition GraphReferences_init :: GraphReferences where
  "GraphReferences_init =
     \<lparr>examples = None, train = None, global_step = None, metric_updates = [],
      metric_values = [], keys = None, predictions = []\<rparr>"

record Model =
  learning_rate :: real
  hidden1 :: nat
  hidden2 :: nat

definition build_graph ::
  "Model \<Rightarrow> string list \<Rightarrow> int \<Rightarrow> bool \<Rightarrow> graph \<Rightarrow> py_error + (GraphReferences \<times> graph)" where
  "build_graph self data_paths batch_size is_training g =
     (let tensors = GraphReferences_init;
          examples_t = snd (read_examples data_paths batch_size is_training
                              (if is_training then None else Some 2));
          tensors = tensors\<lparr>examples := Some examples_t\<rparr>;
          parsed = parse_examples examples_t
      in then_do (py_getitem parsed ''images'') (\<lambda>images.
         then_do (inference images (hidden1 self) (hidden2 self) g) (\<lambda>(logits, g1).
         then_do (py_getitem parsed ''labels'') (\<lambda>labels.
           let loss_value = loss logits labels;
               accuracy_value = evaluation logits labels
           in then_do
                (if is_training
                 then then_do (training loss_value (learning_rate self) g1) (\<lambda>((train_op, gs), g2).
                        Inr (tensors\<lparr>train := Some train_op, global_step := Some gs\<rparr>, g2))
                 else (let (gs, g2) = tf_Variable (InitValue (I32Scalar 0)) ''global_step'' False g1
                       in Inr (tensors\<lparr>global_step := Some gs\<rparr>, g2)))
                (\<lambda>(tensors, g2).
                   let ((loss_op, loss_update), g3) = streaming_mean loss_value g2;
                       ((accuracy_op, accuracy_update), g4) = streaming_mean accuracy_value g3;
                       g5 = scalar_summary ''accuracy'' accuracy_op g4;
                       g6 = scalar_summary ''loss'' loss_op g5
                   in Inr (tensors\<lparr>metric_updates := [loss_update, accuracy_update],
                                  metric_values := [loss_op, accuracy_op]\<rparr>, g6))))))"

definition build_train_graph ::
  "Model \<Rightarrow> string list \<Rightarrow> int \<Rightarrow> graph \<Rightarrow> py_error + (GraphReferences \<times> graph)" where
  "build_train_graph self data_paths batch_size g = build_graph self data_paths batch_size True g"

definition build_eval_graph ::
  "Model \<Rightarrow> string list \<Rightarrow> int \<Rightarrow> graph \<Rightarrow> py_error + (GraphReferences \<times> graph)" where
  "build_eval_graph self data_paths batch_size g = build_graph self data_paths batch_size False g"

text \<open>
  \<open>build_prediction_graph\<close> has no return statement: it returns None, the unit value.
  Besides the graph it writes one record to the log. The dicts \<open>feature_map\<close> and
  \<open>features\<close>, local to \<open>parse_examples\<close> and \<open>build_prediction_graph\<close>, are
  constants here.
\<close>

definition prediction_features :: "(string \<times> feature_spec) list" where
  "prediction_features =
     [(''image'', FixedLenFeature [IMAGE_PIXELS] DT_FLOAT None),
      (''key'', FixedLenFeature [] DT_STRING None)]"

definition build_prediction_graph ::
  "Model \<Rightarrow> string \<Rightarrow> graph \<times> string list \<Rightarrow> py_error + (unit \<times> graph \<times> string list)" where
  "build_prediction_graph self export_dir world =
     (let g = fst world;
          log = snd world @ [''Exporting prediction graph to '' @ export_dir];
          examples_t = Placeholder DT_STRING [None];
          parsed = tf_parse_example examples_t prediction_features
      in then_do (py_getitem parsed ''image'') (\<lambda>images.
         then_do (py_getitem parsed ''key'') (\<lambda>keys_t.
         then_do (inference images (hidden1 self) (hidden2 self) g) (\<lambda>(logits, g1).
           let softmax = Softmax logits;
               prediction = ArgMax softmax 1;
               g2 = add_to_collection ''inputs''
                      (JsonItem [''examples_bytes'' \<mapsto> NameOf examples_t]) g1;
               g3 = add_to_collection ''outputs''
                      (JsonItem [''key'' \<mapsto> NameOf keys_t,
                                 ''prediction'' \<mapsto> NameOf prediction,
                                 ''scores'' \<mapsto> NameOf softmax]) g2
           in Inr ((), g3, log)))))"

subsection \<open>The model factory\<close>

text \<open>
  An argument parser is the list of its options, each a flag with a float default.
  \<open>parse_known_args\<close> is the library's; it is a parameter here, and returns the
  namespace of parsed options and the arguments it did not recognize, or exits.
\<close>

type_synonym ArgumentParser = "(string \<times> real) list"

definition add_argument :: "string \<Rightarrow> real \<Rightarrow> ArgumentParser \<Rightarrow> ArgumentParser" where
  "add_argument flag default_value parser = parser @ [(flag, default_value)]"

definition py_getattr :: "(string \<Rightarrow> 'a option) \<Rightarrow> string \<Rightarrow> py_error + 'a" where
  "py_getattr ns k = (case ns k of None \<Rightarrow> Inl AttributeError | Some v \<Rightarrow> Inr v)"

text \<open>
  Modelled from the spec: \<open>util.override_if_not_in_args\<close> is not among the sources.
  It injects a default for a flag only if the flag is not already present in the
  argument list, so that existing values win and defaults fill only missing keys; an
  argument list containing \<open>--batch_size=50\<close> keeps 50 when \<open>--batch_size 100\<close> is
  injected. A flag is present when an argument is the flag itself or starts with the
  flag and an equals sign; injecting appends the flag and its value.
\<close>

definition arg_sets_flag :: "string \<Rightarrow> string \<Rightarrow> bool" where
  "arg_sets_flag flag a \<longleftrightarrow> a = flag \<or> take (Suc (length flag)) a = flag @ ''=''"

definition flag_in_args :: "string \<Rightarrow> string list \<Rightarrow> bool" where
  "flag_in_args flag args \<longleftrightarrow> list_ex (arg_sets_flag flag) args"

definition override_if_not_in_args :: "string \<Rightarrow> string \<Rightarrow> string list \<Rightarrow> string list" where
  "override_if_not_in_args flag argument args =
     (if flag_in_args flag args then args else args @ [flag, argument])"

definition create_model ::
  "(ArgumentParser \<Rightarrow> string list \<Rightarrow> py_error + ((string \<Rightarrow> real option) \<times> string list)) \<Rightarrow>
   string list \<Rightarrow> py_error + (Model \<times> string list)" where
  "create_model parse_known_args argv =
     (let parser = add_argument ''--learning_rate'' (1 / 100) []
      in then_do (parse_known_args parser argv) (\<lambda>(args, task_args).
           let task_args = override_if_not_in_args ''--max_steps'' ''5000'' task_args;
               task_args = override_if_not_in_args ''--batch_size'' ''100'' task_args;
               task_args = override_if_not_in_args ''--eval_set_size'' ''10000'' task_args;
               task_args = override_if_not_in_args ''--eval_interval_secs'' ''1'' task_args;
               task_args = override_if_not_in_args ''--log_interval_secs'' ''1'' task_args;
               task_args = override_if_not_in_args ''--min_train_eval_rate'' ''1'' task_args
           in then_do (py_getattr args ''learning_rate'') (\<lambda>lr.
                Inr (\<lparr>learning_rate = lr, hidden1 = HIDDEN1, hidden2 = HIDDEN2\<rparr>, task_args))))"

subsection \<open>Notions used in the statements\<close>

text \<open>
  The affine part of a fully connected layer whose weights and biases are the variables
  \<open>i\<close> and \<open>i + 1\<close>, those two variables, and a graph extended by trainable
  variables.
\<close>

definition layer_weights :: "nat \<Rightarrow> nat \<Rightarrow> nat \<Rightarrow> tensor" where
  "layer_weights i n k = Variable i ''weights'' (InitXavier n k) True"

definition layer_biases :: "nat \<Rightarrow> nat \<Rightarrow> tensor" where
  "layer_biases i k = Variable (Suc i) ''biases'' (InitZeros k) True"

definition affine_layer :: "nat \<Rightarrow> tensor \<Rightarrow> nat \<Rightarrow> nat \<Rightarrow> tensor" where
  "affine_layer i inputs n k = BiasAdd (MatMul inputs (layer_weights i n k)) (layer_biases i k)"

definition with_trainable_variables :: "tensor list \<Rightarrow> graph \<Rightarrow> graph" where
  "with_trainable_variables vs g =
     g\<lparr>next_id := next_id g + length vs,
       collections := (collections g)
         (''variables'' := collections g ''variables'' @ map TensorItem vs,
          ''trainable_variables'' := collections g ''trainable_variables'' @ map TensorItem vs)\<rparr>"

text \<open>
  A plateau of the loss: the gradient with respect to every variable is zero, of the
  variable's own shape.
\<close>

fun zeros_like :: "tval \<Rightarrow> tval" where
  "zeros_like (FMat W) = FMat (map (map (\<lambda>_. 0)) W)"
| "zeros_like (FVec w) = FVec (map (\<lambda>_. 0) w)"
| "zeros_like (FScalar x) = FScalar 0"
| "zeros_like v = v"

definition zero_grad :: "session \<Rightarrow> tensor \<Rightarrow> tensor \<Rightarrow> py_error + tval" where
  "zero_grad s loss_t v = Inr (zeros_like (var_value s v))"

fun is_float :: "tval \<Rightarrow> bool" where
  "is_float (FMat W) = True"
| "is_float (FVec w) = True"
| "is_float (FScalar x) = True"
| "is_float v = False"

text \<open>A session before initialization, with nothing fed and a decoder that rejects all.\<close>

definition blank_session :: session where
  "blank_session = \<lparr>var_value = (\<lambda>_. FNaN), feed = (\<lambda>_. None), decode_example = (\<lambda>_. None)\<rparr>"

text \<open>
  The library hands out variable identifiers in order: in a graph it built, every
  trainable variable has an identifier below \<open>next_id\<close>.
\<close>

definition fresh_ids :: "graph \<Rightarrow> bool" where
  "fresh_ids g \<longleftrightarrow>
     list_all (\<lambda>t. case t of Variable i nm init tr \<Rightarrow> i < next_id g | _ \<Rightarrow> True)
       (get_collection_tensors g ''trainable_variables'')"

text \<open>
  A concrete training set-up for the witnesses: the parsed batch of a training input
  pipeline, and the session after initialization with all initial weights zero.
\<close>

definition train_images :: tensor where
  "train_images = ParseExample (snd (read_examples [''train''] 100 True None)) feature_map ''images''"

definition train_labels :: tensor where
  "train_labels = ParseExample (snd (read_examples [''train''] 100 True None)) feature_map ''labels''"

definition zero_session :: session where
  "zero_session = initialize_all_variables (\<lambda>_ _ _. 0) blank_session"

text \<open>
  The six defaults of the model factory, and argparse on an argument list that holds
  none of the parser's options: every option takes its default (under the flag's name
  without the dashes) and every argument is residual.
\<close>

definition task_defaults :: "(string \<times> string) list" where
  "task_defaults =
     [(''--max_steps'', ''5000''), (''--batch_size'', ''100''), (''--eval_set_size'', ''10000''),
      (''--eval_interval_secs'', ''1''), (''--log_interval_secs'', ''1''),
      (''--min_train_eval_rate'', ''1'')]"

definition missing_defaults :: "string list \<Rightarrow> string list" where
  "missing_defaults args =
     concat (map (\<lambda>kv. if flag_in_args (fst kv) args then [] else [fst kv, snd kv]) task_defaults)"

definition parse_no_options ::
  "ArgumentParser \<Rightarrow> string list \<Rightarrow> py_error + ((string \<Rightarrow> real option) \<times> string list)" where
  "parse_no_options parser argv = Inr (map_of (map (\<lambda>fd. (drop 2 (fst fd), snd fd)) parser), argv)"

text \<open>
  Injecting a list of defaults in order, and the condition under which the injections
  do not interfere: no later flag is set by an earlier flag or value.
\<close>

fun inject_defaults :: "(string \<times> string) list \<Rightarrow> string list \<Rightarrow> string list" where
  "inject_defaults [] args = args"
| "inject_defaults (kv # kvs) args =
     inject_defaults kvs (override_if_not_in_args (fst kv) (snd kv) args)"

fun independent_flags :: "(string \<times> string) list \<Rightarrow> bool" where
  "independent_flags [] = True"
| "independent_flags (kv # kvs) \<longleftrightarrow>
     list_all (\<lambda>kv'. \<not> arg_sets_flag (fst kv') (fst kv) \<and> \<not> arg_sets_flag (fst kv') (snd kv)) kvs \<and>
     independent_flags kvs"

text \<open>
  A well-formed training record holds 784 floats under \<open>images\<close> and at most one
  int64 under \<open>labels\<close>; its image, and its label with the default for a missing one.
\<close>

definition well_formed_record :: "example \<Rightarrow> bool" where
  "well_formed_record ex \<longleftrightarrow>
     (case ex ''images'' of Some (FloatList xs) \<Rightarrow> length xs = IMAGE_PIXELS | _ \<Rightarrow> False) \<and>
     (case ex ''labels'' of None \<Rightarrow> True | Some (Int64List ls) \<Rightarrow> length ls = 1 | _ \<Rightarrow> False)"

definition record_image :: "example \<Rightarrow> real list" where
  "record_image ex = (case ex ''images'' of Some (FloatList xs) \<Rightarrow> xs | _ \<Rightarrow> [])"

definition record_label :: "example \<Rightarrow> 64 word" where
  "record_label ex = (case ex ''labels'' of Some (Int64List [l]) \<Rightarrow> l | _ \<Rightarrow> - 1)"

text \<open>
  A concrete input pipeline for the witnesses: a batch of two records, one labelled 7
  and one with no label, and the session that reads and decodes them.
\<close>

definition labelled_record :: example where
  "labelled_record =
     [''images'' \<mapsto> FloatList (replicate 784 (1 / 2)), ''labels'' \<mapsto> Int64List [7]]"

definition unlabelled_record :: example where
  "unlabelled_record = [''images'' \<mapsto> FloatList (replicate 784 0)]"

definition train_examples :: tensor where
  "train_examples = snd (read_examples [''train''] 100 True None)"

definition pipeline_session :: session where
  "pipeline_session =
     \<lparr>var_value = (\<lambda>_. FNaN),
      feed = (\<lambda>t. if t = train_examples then Some (SVec [''r1'', ''r2'']) else None),
      decode_example = (\<lambda>r. if r = ''r1'' then Some labelled_record
                             else if r = ''r2'' then Some unlabelled_record else None)\<rparr>"

text \<open>
  The labelled class scores highest (no class scores strictly higher), and it is the
  unique maximum (every other class scores strictly lower).
\<close>

definition label_is_max :: "real list \<Rightarrow> int \<Rightarrow> bool" where
  "label_is_max r l \<longleftrightarrow> list_all (\<lambda>x. x \<le> r ! nat l) r"

definition label_is_unique_max :: "real list \<Rightarrow> int \<Rightarrow> bool" where
  "label_is_unique_max r l \<longleftrightarrow> list_all (\<lambda>j. j = nat l \<or> r ! j < r ! nat l) [0..<length r]"

text \<open>
  Concrete logits and labels for the witnesses: two placeholders, fed a batch of two
  examples whose labelled classes, 3 and 1, score highest.
\<close>

definition logits_in :: tensor where
  "logits_in = Placeholder DT_FLOAT [None, Some 10]"

definition labels_in :: tensor where
  "labels_in = Placeholder DT_INT64 [None]"

definition sample_logits :: "real list list" where
  "sample_logits = [[0, 0, 0, 5, 0, 0, 0, 0, 0, 0], [0, 7, 0, 0, 0, 0, 0, 0, 0, 0]]"

definition fed_session :: session where
  "fed_session =
     blank_session\<lparr>feed := [logits_in \<mapsto> FMat sample_logits, labels_in \<mapsto> I64Vec [3, 1]]\<rparr>"

text \<open>
  A matrix of zeros, and the session of the input pipeline after initialization with
  zero weights in which training has moved every bias of the output layer to \<open>-1\<close>.
\<close>

definition zero_matrix :: "nat \<Rightarrow> nat \<Rightarrow> real list list" where
  "zero_matrix m n = map (\<lambda>r. map (\<lambda>c. 0) [0..<n]) [0..<m]"

definition negative_bias_session :: session where
  "negative_bias_session =
     assign (layer_biases 4 NUM_CLASSES) (FVec (replicate 10 (- 1)))
       (initialize_all_variables (\<lambda>_ _ _. 0) pipeline_session)"

section \<open>Verified properties\<close>

subsection \<open>Lemmas on formatting\<close>

lemma decimal_digit: "n < 10 \<Longrightarrow> decimal n = [digit_char n]"
  by (simp add: decimal.simps)

lemma round_half_even_error: "\<bar>of_int (round_half_even y) - y\<bar> \<le> 1 / 2"
proof -
  have "of_int \<lfloor>y\<rfloor> \<le> y" "y < of_int \<lfloor>y\<rfloor> + 1"
    by linarith+
  then show ?thesis
    unfolding round_half_even_def Let_def by (auto simp: abs_le_iff)
qed

lemma round_half_even_eqI:
  assumes "of_int n - 1 / 2 < y" "y < of_int n + 1 / 2"
  shows "round_half_even y = n"
proof -
  have e: "\<bar>of_int (round_half_even y) - y\<bar> \<le> 1 / 2"
    by (rule round_half_even_error)
  have "\<bar>(of_int (round_half_even y) :: real) - of_int n\<bar> < 1"
    using assms e by linarith
  then have "\<bar>(of_int (round_half_even y - n) :: real)\<bar> < 1"
    by simp
  then have "\<bar>round_half_even y - n\<bar> < 1"
    by (metis of_int_abs of_int_less_1_iff)
  then show ?thesis by linarith
qed

lemma format_3f_0_1234: "format_3f float_0_1234 = ''0.123''"
proof -
  have "round_half_even (\<bar>float_0_1234\<bar> * 1000) = 123"
    by (rule round_half_even_eqI) (simp_all add: float_0_1234_def)
  moreover have "\<not> float_0_1234 < 0"
    by (simp add: float_0_1234_def)
  ultimately show ?thesis
    by (simp add: format_3f_def fixed3_def decimal_digit digit_char_def)
qed

lemma format_3f_0_9876: "format_3f float_0_9876 = ''0.988''"
proof -
  have "round_half_even (\<bar>float_0_9876\<bar> * 1000) = 988"
    by (rule round_half_even_eqI) (simp_all add: float_0_9876_def)
  moreover have "\<not> float_0_9876 < 0"
    by (simp add: float_0_9876_def)
  ultimately show ?thesis
    by (simp add: format_3f_def fixed3_def decimal_digit digit_char_def)
qed

lemma format_3f_3_14159: "format_3f float_3_14159 = ''3.142''"
proof -
  have "round_half_even (\<bar>float_3_14159\<bar> * 1000) = 3142"
    by (rule round_half_even_eqI) (simp_all add: float_3_14159_def)
  moreover have "\<not> float_3_14159 < 0"
    by (simp add: float_3_14159_def)
  ultimately show ?thesis
    by (simp add: format_3f_def fixed3_def decimal_digit digit_char_def)
qed

text \<open>
  C9. \<open>format_metric_values\<close> at \<open>(0.1234, 0.9876)\<close> is \<open>loss: 0.123, accuracy: 0.988\<close>
  and \<open>format_prediction_values\<close> at \<open>[3.14159]\<close> is \<open>3.142\<close>. In general the two
  print \<open>'%.3f'\<close> of the first two, respectively the first, element of their argument,
  and \<open>'%.3f'\<close> prints the sign, the integer part and exactly three fractional digits of
  a number of thousandths that is within half a thousandth of the magnitude printed.
\<close>

theorem format_values_three_decimals:
  "format_metric_values [float_0_1234, float_0_9876] = Inr ''loss: 0.123, accuracy: 0.988'' \<and>
   format_prediction_values [float_3_14159] = Inr ''3.142'' \<and>
   format_metric_values (l # a # rest) =
     Inr (''loss: '' @ format_3f l @ '', accuracy: '' @ format_3f a) \<and>
   format_prediction_values (p # rest') = Inr (format_3f p) \<and>
   format_3f x = (if x < 0 then ''-'' else '''') @
     decimal (nat (round_half_even (\<bar>x\<bar> * 1000)) div 1000) @ ''.'' @
     [digit_char (nat (round_half_even (\<bar>x\<bar> * 1000)) div 100 mod 10),
      digit_char (nat (round_half_even (\<bar>x\<bar> * 1000)) div 10 mod 10),
      digit_char (nat (round_half_even (\<bar>x\<bar> * 1000)) mod 10)] \<and>
   \<bar>of_int (round_half_even (\<bar>x\<bar> * 1000)) / 1000 - \<bar>x\<bar>\<bar> \<le> 1 / 2000"
proof -
  have c1: "format_metric_values [float_0_1234, float_0_9876] = Inr ''loss: 0.123, accuracy: 0.988''"
    by (simp add: format_metric_values_def then_do_def py_index_def
        format_3f_0_1234 format_3f_0_9876)
  have c2: "format_prediction_values [float_3_14159] = Inr ''3.142''"
    by (simp add: format_prediction_values_def then_do_def py_index_def format_3f_3_14159)
  have c3: "format_metric_values (l # a # rest) =
     Inr (''loss: '' @ format_3f l @ '', accuracy: '' @ format_3f a)"
    by (simp add: format_metric_values_def then_do_def py_index_def)
  have c4: "format_prediction_values (p # rest') = Inr (format_3f p)"
    by (simp add: format_prediction_values_def then_do_def py_index_def)
  have c5: "format_3f x = (if x < 0 then ''-'' else '''') @
     decimal (nat (round_half_even (\<bar>x\<bar> * 1000)) div 1000) @ ''.'' @
     [digit_char (nat (round_half_even (\<bar>x\<bar> * 1000)) div 100 mod 10),
      digit_char (nat (round_half_even (\<bar>x\<bar> * 1000)) div 10 mod 10),
      digit_char (nat (round_half_even (\<bar>x\<bar> * 1000)) mod 10)]"
    by (simp add: format_3f_def fixed3_def)
  have "\<bar>of_int (round_half_even (\<bar>x\<bar> * 1000)) - \<bar>x\<bar> * 1000\<bar> \<le> 1 / 2"
    by (rule round_half_even_error)
  then have c6: "\<bar>of_int (round_half_even (\<bar>x\<bar> * 1000)) / 1000 - \<bar>x\<bar>\<bar> \<le> 1 / 2000"
    by (simp add: abs_le_iff field_simps)
  from c1 c2 c3 c4 c5 c6 show ?thesis by blast
qed

subsection \<open>Graph construction\<close>

lemma then_do_Inr [simp]: "then_do (Inr x) f = f x"
  by (simp add: then_do_def)
lemma then_do_Inl [simp]: "then_do (Inl e) f = Inl e"
  by (simp add: then_do_def)

lemma getitem_images [simp]:
  "py_getitem (parse_examples ex) ''images'' = Inr (ParseExample ex feature_map ''images'')"
  by (simp add: parse_examples_def tf_parse_example_def py_getitem_def feature_map_def)

lemma getitem_labels [simp]:
  "py_getitem (parse_examples ex) ''labels'' = Inr (ParseExample ex feature_map ''labels'')"
  by (simp add: parse_examples_def tf_parse_example_def py_getitem_def feature_map_def)

lemma last_dim_images [simp]: "last_dim (ParseExample ex feature_map ''images'') = Some 784"
  by (simp add: feature_map_def IMAGE_PIXELS_def IMAGE_SIZE_def)

lemma getitem_image [simp]:
  "py_getitem (tf_parse_example ex prediction_features) ''image'' =
     Inr (ParseExample ex prediction_features ''image'')"
  by (simp add: tf_parse_example_def py_getitem_def prediction_features_def)

lemma getitem_key [simp]:
  "py_getitem (tf_parse_example ex prediction_features) ''key'' =
     Inr (ParseExample ex prediction_features ''key'')"
  by (simp add: tf_parse_example_def py_getitem_def prediction_features_def)

lemma last_dim_image [simp]: "last_dim (ParseExample ex prediction_features ''image'') = Some 784"
  by (simp add: prediction_features_def IMAGE_PIXELS_def IMAGE_SIZE_def)

text \<open>What a layer, and the three layers of \<open>inference\<close>, add to the graph.\<close>

lemma layers_fully_connected_relu:
  assumes "last_dim inputs = Some n"
  shows "layers_fully_connected inputs k (Some nn_relu) g =
    Inr (Relu (affine_layer (next_id g) inputs n k),
         with_trainable_variables [layer_weights (next_id g) n k, layer_biases (next_id g) k] g)"
  using assms
  by (simp add: layers_fully_connected_def tf_Variable_def add_to_collection_def Let_def
      affine_layer_def layer_weights_def layer_biases_def with_trainable_variables_def fun_eq_iff)

lemma last_dim_affine_layer [simp]: "last_dim (affine_layer i inputs n k) = Some k"
  by (simp add: affine_layer_def layer_weights_def)

lemma with_trainable_variables_append:
  "with_trainable_variables ws (with_trainable_variables vs g) = with_trainable_variables (vs @ ws) g"
  by (simp add: with_trainable_variables_def fun_eq_iff)

lemma next_id_with_trainable_variables [simp]:
  "next_id (with_trainable_variables vs g) = next_id g + length vs"
  by (simp add: with_trainable_variables_def)

lemma inference_explicit:
  assumes "last_dim images = Some n"
  shows "inference images h1 h2 g =
    Inr (Relu (affine_layer (next_id g + 4)
                 (Relu (affine_layer (next_id g + 2)
                    (Relu (affine_layer (next_id g) images n h1)) h1 h2)) h2 NUM_CLASSES),
         with_trainable_variables
           [layer_weights (next_id g) n h1, layer_biases (next_id g) h1,
            layer_weights (next_id g + 2) h1 h2, layer_biases (next_id g + 2) h2,
            layer_weights (next_id g + 4) h2 NUM_CLASSES, layer_biases (next_id g + 4) NUM_CLASSES] g)"
  using assms
  by (simp add: inference_def fully_connected_default_activation_fn_def
      layers_fully_connected_relu with_trainable_variables_append eval_nat_numeral)

lemma minimize_ok:
  assumes "TensorItem v \<in> set (collections g ''trainable_variables'')"
    and "v \<in> set (node_variables loss_t)"
  shows "minimize opt loss_t gs g =
    Inr (Minimize opt loss_t (get_collection_tensors g ''trainable_variables'') gs)"
proof -
  have "v \<in> set (get_collection_tensors g ''trainable_variables'')"
    using assms(1) by (force simp: get_collection_tensors_def)
  then show ?thesis
    using assms(2) by (auto simp: minimize_def Let_def list_ex_iff)
qed

lemma training_ok:
  assumes "TensorItem v \<in> set (collections g ''trainable_variables'')"
    and "v \<in> set (node_variables loss_t)"
  shows "\<exists>var_list g'.
    training loss_t lr g =
      Inr ((Minimize (GradientDescentOptimizer lr) loss_t var_list
              (Some (Variable (next_id g) ''global_step'' (InitValue (I32Scalar 0)) False)),
            Variable (next_id g) ''global_step'' (InitValue (I32Scalar 0)) False), g') \<and>
    var_list = get_collection_tensors g ''trainable_variables'' \<and>
    g' = add_to_collection ''variables''
           (TensorItem (Variable (next_id g) ''global_step'' (InitValue (I32Scalar 0)) False))
           (g\<lparr>next_id := Suc (next_id g)\<rparr>)"
proof -
  let ?gs = "Variable (next_id g) ''global_step'' (InitValue (I32Scalar 0)) False"
  let ?g1 = "add_to_collection ''variables'' (TensorItem ?gs) (g\<lparr>next_id := Suc (next_id g)\<rparr>)"
  have "TensorItem v \<in> set (collections ?g1 ''trainable_variables'')"
    using assms(1) by (simp add: add_to_collection_def)
  then have "minimize (GradientDescentOptimizer lr) loss_t (Some ?gs) ?g1 =
      Inr (Minimize (GradientDescentOptimizer lr) loss_t
             (get_collection_tensors ?g1 ''trainable_variables'') (Some ?gs))"
    using assms(2) by (rule minimize_ok)
  moreover have "get_collection_tensors ?g1 ''trainable_variables'' =
      get_collection_tensors g ''trainable_variables''"
    by (simp add: get_collection_tensors_def add_to_collection_def)
  ultimately show ?thesis
    by (simp add: training_def tf_Variable_def Let_def)
qed


lemma build_graph_train_explicit:
  assumes "inference (ParseExample (snd (read_examples data_paths batch_size True None)) feature_map ''images'')
             (hidden1 self) (hidden2 self) g = Inr (logits, g1)"
    and "training (loss logits (ParseExample (snd (read_examples data_paths batch_size True None)) feature_map ''labels''))
           (learning_rate self) g1 = Inr ((train_op, gs), g2)"
  shows "\<exists>g' mu mv. build_graph self data_paths batch_size True g =
     Inr (\<lparr>examples = Some (snd (read_examples data_paths batch_size True None)),
           train = Some train_op, global_step = Some gs,
           metric_updates = mu, metric_values = mv, keys = None, predictions = []\<rparr>, g') \<and>
     length mu = 2 \<and> length mv = 2"
  using assms
  by (simp add: build_graph_def Let_def GraphReferences_init_def streaming_mean_def
        local_variable_def scalar_summary_def split_beta)

lemma build_graph_eval_explicit:
  assumes "inference (ParseExample (snd (read_examples data_paths batch_size False (Some 2))) feature_map ''images'')
             (hidden1 self) (hidden2 self) g = Inr (logits, g1)"
  shows "\<exists>g' mu mv. build_graph self data_paths batch_size False g =
     Inr (\<lparr>examples = Some (snd (read_examples data_paths batch_size False (Some 2))),
           train = None,
           global_step = Some (Variable (next_id g1) ''global_step'' (InitValue (I32Scalar 0)) False),
           metric_updates = mu, metric_values = mv, keys = None, predictions = []\<rparr>, g') \<and>
     length mu = 2 \<and> length mv = 2 \<and>
     collections g' ''variables'' = collections g1 ''variables'' @
        [TensorItem (Variable (next_id g1) ''global_step'' (InitValue (I32Scalar 0)) False)] \<and>
     collections g' ''trainable_variables'' = collections g1 ''trainable_variables''"
  using assms
  by (simp add: build_graph_def Let_def GraphReferences_init_def streaming_mean_def
        local_variable_def scalar_summary_def split_beta tf_Variable_def add_to_collection_def)


lemma inference_trainable:
  assumes "last_dim images = Some n"
  shows "\<exists>logits g1 w.
     inference images h1 h2 g = Inr (logits, g1) \<and>
     TensorItem w \<in> set (collections g1 ''trainable_variables'') \<and>
     w \<in> set (node_variables logits)"
proof -
  let ?w = "layer_weights (next_id g + 4) h2 NUM_CLASSES"
  let ?logits = "Relu (affine_layer (next_id g + 4)
                 (Relu (affine_layer (next_id g + 2)
                    (Relu (affine_layer (next_id g) images n h1)) h1 h2)) h2 NUM_CLASSES)"
  let ?g1 = "with_trainable_variables
           [layer_weights (next_id g) n h1, layer_biases (next_id g) h1,
            layer_weights (next_id g + 2) h1 h2, layer_biases (next_id g + 2) h2,
            layer_weights (next_id g + 4) h2 NUM_CLASSES, layer_biases (next_id g + 4) NUM_CLASSES] g"
  have "inference images h1 h2 g = Inr (?logits, ?g1)"
    by (rule inference_explicit [OF assms])
  moreover have "TensorItem ?w \<in> set (collections ?g1 ''trainable_variables'')"
    by (simp add: with_trainable_variables_def)
  moreover have "?w \<in> set (node_variables ?logits)"
    by (simp add: affine_layer_def layer_weights_def)
  ultimately have "inference images h1 h2 g = Inr (?logits, ?g1) \<and>
     TensorItem ?w \<in> set (collections ?g1 ''trainable_variables'') \<and>
     ?w \<in> set (node_variables ?logits)"
    by (intro conjI)
  then show ?thesis
    apply -
    apply (rule exI)+
    apply assumption
    done
qed

text \<open>
  C7. \<open>build_graph\<close> always succeeds. With \<open>is_training\<close> it reads its examples through
  \<open>read_examples\<close> with shuffling on and no epoch limit, and its train operation and
  global step are the pair that \<open>training\<close> returns for the loss of the inference
  logits at the model's learning rate. Without \<open>is_training\<close> it reads unshuffled with
  an epoch limit of 2, leaves \<open>train\<close> at None, and its global step is a fresh variable
  named \<open>global_step\<close>, initialized to the int32 zero and not trainable, whose creation
  leaves the trainable variables as inference made them. In both modes \<open>keys\<close> is None
  and \<open>predictions\<close> is the empty list.
\<close>

theorem build_graph_populates_by_mode:
  "(\<exists>refs g' logits g1 train_op gs g2.
      build_graph self data_paths batch_size True g = Inr (refs, g') \<and>
      examples refs = Some (snd (read_examples data_paths batch_size True None)) \<and>
      inference (ParseExample (snd (read_examples data_paths batch_size True None))
                   feature_map ''images'') (hidden1 self) (hidden2 self) g = Inr (logits, g1) \<and>
      training (loss logits (ParseExample (snd (read_examples data_paths batch_size True None))
                               feature_map ''labels''))
         (learning_rate self) g1 = Inr ((train_op, gs), g2) \<and>
      train refs = Some train_op \<and> global_step refs = Some gs \<and>
      keys refs = None \<and> predictions refs = []) \<and>
   (\<exists>refs g' logits g1.
      build_graph self data_paths batch_size False g = Inr (refs, g') \<and>
      examples refs = Some (snd (read_examples data_paths batch_size False (Some 2))) \<and>
      inference (ParseExample (snd (read_examples data_paths batch_size False (Some 2)))
                   feature_map ''images'') (hidden1 self) (hidden2 self) g = Inr (logits, g1) \<and>
      train refs = None \<and>
      global_step refs =
        Some (Variable (next_id g1) ''global_step'' (InitValue (I32Scalar 0)) False) \<and>
      collections g' ''trainable_variables'' = collections g1 ''trainable_variables'' \<and>
      keys refs = None \<and> predictions refs = [])"
proof (rule conjI)
  let ?ex = "snd (read_examples data_paths batch_size True None)"
  let ?images = "ParseExample ?ex feature_map ''images''"
  let ?labels = "ParseExample ?ex feature_map ''labels''"
  from inference_trainable [OF last_dim_images, of ?ex "hidden1 self" "hidden2 self" g]
  obtain logits g1 w where
    inf: "inference ?images (hidden1 self) (hidden2 self) g = Inr (logits, g1)"
    and w: "TensorItem w \<in> set (collections g1 ''trainable_variables'')"
      "w \<in> set (node_variables logits)"
    by blast
  from w(2) have "w \<in> set (node_variables (loss logits ?labels))"
    by (simp add: loss_def Let_def)
  from training_ok [OF w(1) this, of "learning_rate self"] obtain train_op gs g2 where
    tr: "training (loss logits ?labels) (learning_rate self) g1 = Inr ((train_op, gs), g2)"
    by blast
  from build_graph_train_explicit [OF inf tr] obtain g' mu mv where
    bg: "build_graph self data_paths batch_size True g =
      Inr (\<lparr>examples = Some ?ex, train = Some train_op, global_step = Some gs,
            metric_updates = mu, metric_values = mv, keys = None, predictions = []\<rparr>, g')"
    by blast
  let ?R = "\<lparr>examples = Some ?ex, train = Some train_op, global_step = Some gs,
            metric_updates = mu, metric_values = mv, keys = None, predictions = []\<rparr>"
  have "build_graph self data_paths batch_size True g = Inr (?R, g') \<and>
      examples ?R = Some ?ex \<and>
      inference ?images (hidden1 self) (hidden2 self) g = Inr (logits, g1) \<and>
      training (loss logits ?labels) (learning_rate self) g1 = Inr ((train_op, gs), g2) \<and>
      train ?R = Some train_op \<and> global_step ?R = Some gs \<and>
      keys ?R = None \<and> predictions ?R = []"
    using bg inf tr by simp
  then show "\<exists>refs g' logits g1 train_op gs g2.
      build_graph self data_paths batch_size True g = Inr (refs, g') \<and>
      examples refs = Some ?ex \<and>
      inference ?images (hidden1 self) (hidden2 self) g = Inr (logits, g1) \<and>
      training (loss logits ?labels) (learning_rate self) g1 = Inr ((train_op, gs), g2) \<and>
      train refs = Some train_op \<and> global_step refs = Some gs \<and>
      keys refs = None \<and> predictions refs = []"
    apply -
    apply (rule exI)+
    apply assumption
    done
next
  let ?ex = "snd (read_examples data_paths batch_size False (Some 2))"
  let ?images = "ParseExample ?ex feature_map ''images''"
  from inference_trainable [OF last_dim_images, of ?ex "hidden1 self" "hidden2 self" g]
  obtain logits g1 where
    inf: "inference ?images (hidden1 self) (hidden2 self) g = Inr (logits, g1)"
    by blast
  let ?gs = "Variable (next_id g1) ''global_step'' (InitValue (I32Scalar 0)) False"
  from build_graph_eval_explicit [OF inf] obtain g' mu mv where
    bg: "build_graph self data_paths batch_size False g =
      Inr (\<lparr>examples = Some ?ex, train = None, global_step = Some ?gs,
            metric_updates = mu, metric_values = mv, keys = None, predictions = []\<rparr>, g')"
    and tv: "collections g' ''trainable_variables'' = collections g1 ''trainable_variables''"
    by blast
  let ?R = "\<lparr>examples = Some ?ex, train = None, global_step = Some ?gs,
            metric_updates = mu, metric_values = mv, keys = None, predictions = []\<rparr>"
  have "build_graph self data_paths batch_size False g = Inr (?R, g') \<and>
      examples ?R = Some ?ex \<and>
      inference ?images (hidden1 self) (hidden2 self) g = Inr (logits, g1) \<and>
      train ?R = None \<and> global_step ?R = Some ?gs \<and>
      collections g' ''trainable_variables'' = collections g1 ''trainable_variables'' \<and>
      keys ?R = None \<and> predictions ?R = []"
    using bg inf tv by simp
  then show "\<exists>refs g' logits g1.
      build_graph self data_paths batch_size False g = Inr (refs, g') \<and>
      examples refs = Some ?ex \<and>
      inference ?images (hidden1 self) (hidden2 self) g = Inr (logits, g1) \<and>
      train refs = None \<and>
      global_step refs =
        Some (Variable (next_id g1) ''global_step'' (InitValue (I32Scalar 0)) False) \<and>
      collections g' ''trainable_variables'' = collections g1 ''trainable_variables'' \<and>
      keys refs = None \<and> predictions refs = []"
    apply -
    apply (rule exI)+
    apply assumption
    done
qed

lemma build_prediction_graph_explicit:
  assumes "inference (ParseExample (Placeholder DT_STRING [None]) prediction_features ''image'')
             (hidden1 self) (hidden2 self) g = Inr (logits, g1)"
  shows "build_prediction_graph self export_dir (g, lg) =
     Inr ((),
          add_to_collection ''outputs''
            (JsonItem [''key'' \<mapsto> NameOf (ParseExample (Placeholder DT_STRING [None]) prediction_features ''key''),
                       ''prediction'' \<mapsto> NameOf (ArgMax (Softmax logits) 1),
                       ''scores'' \<mapsto> NameOf (Softmax logits)])
            (add_to_collection ''inputs''
               (JsonItem [''examples_bytes'' \<mapsto> NameOf (Placeholder DT_STRING [None])]) g1),
          lg @ [''Exporting prediction graph to '' @ export_dir])"
  using assms by (simp add: build_prediction_graph_def Let_def)

lemma inference_keeps_endpoints:
  assumes "last_dim images = Some n" and "inference images h1 h2 g = Inr (logits, g1)"
  shows "collections g1 ''inputs'' = collections g ''inputs''"
    and "collections g1 ''outputs'' = collections g ''outputs''"
  using assms(2) unfolding inference_explicit [OF assms(1)]
  by (auto simp: with_trainable_variables_def)

text \<open>
  C8. \<open>build_prediction_graph\<close> always succeeds and appends exactly one item to the
  collection \<open>inputs\<close>, the JSON dict whose only key \<open>examples_bytes\<close> is bound to the
  name of the placeholder of raw serialized records, and exactly one item to the
  collection \<open>outputs\<close>, the JSON dict whose three keys \<open>key\<close>, \<open>prediction\<close> and
  \<open>scores\<close> are bound to the names of the parsed key, of the arg-max along the classes
  of the softmax of the inference logits, and of that softmax.
\<close>

theorem build_prediction_graph_endpoints:
  "\<exists>logits g1 g' log' inputs_json outputs_json.
     inference (ParseExample (Placeholder DT_STRING [None]) prediction_features ''image'')
       (hidden1 self) (hidden2 self) g = Inr (logits, g1) \<and>
     build_prediction_graph self export_dir (g, lg) = Inr ((), g', log') \<and>
     collections g' ''inputs'' = collections g ''inputs'' @ [JsonItem inputs_json] \<and>
     inputs_json = [''examples_bytes'' \<mapsto> NameOf (Placeholder DT_STRING [None])] \<and>
     dom inputs_json = {''examples_bytes''} \<and>
     collections g' ''outputs'' = collections g ''outputs'' @ [JsonItem outputs_json] \<and>
     outputs_json =
       [''key'' \<mapsto> NameOf (ParseExample (Placeholder DT_STRING [None]) prediction_features ''key''),
        ''prediction'' \<mapsto> NameOf (ArgMax (Softmax logits) 1),
        ''scores'' \<mapsto> NameOf (Softmax logits)] \<and>
     dom outputs_json = {''key'', ''prediction'', ''scores''}"
proof -
  let ?examples = "Placeholder DT_STRING [None]"
  let ?images = "ParseExample ?examples prediction_features ''image''"
  let ?keys = "ParseExample ?examples prediction_features ''key''"
  from inference_trainable [OF last_dim_image, of ?examples "hidden1 self" "hidden2 self" g]
  obtain logits g1 where
    inf: "inference ?images (hidden1 self) (hidden2 self) g = Inr (logits, g1)"
    by blast
  note col = inference_keeps_endpoints [OF last_dim_image inf]
  let ?in = "[''examples_bytes'' \<mapsto> NameOf ?examples]"
  let ?out = "[''key'' \<mapsto> NameOf ?keys, ''prediction'' \<mapsto> NameOf (ArgMax (Softmax logits) 1),
        ''scores'' \<mapsto> NameOf (Softmax logits)]"
  let ?g' = "add_to_collection ''outputs'' (JsonItem ?out)
            (add_to_collection ''inputs'' (JsonItem ?in) g1)"
  let ?log' = "lg @ [''Exporting prediction graph to '' @ export_dir]"
  have bp: "build_prediction_graph self export_dir (g, lg) = Inr ((), ?g', ?log')"
    by (rule build_prediction_graph_explicit [OF inf])
  have i: "collections ?g' ''inputs'' = collections g ''inputs'' @ [JsonItem ?in]"
    by (simp add: add_to_collection_def col)
  have o: "collections ?g' ''outputs'' = collections g ''outputs'' @ [JsonItem ?out]"
    by (simp add: add_to_collection_def col)
  have di: "dom ?in = {''examples_bytes''}" by simp
  have do: "dom ?out = {''key'', ''prediction'', ''scores''}" by auto
  from inf bp i o di do
  have "inference ?images (hidden1 self) (hidden2 self) g = Inr (logits, g1) \<and>
     build_prediction_graph self export_dir (g, lg) = Inr ((), ?g', ?log') \<and>
     collections ?g' ''inputs'' = collections g ''inputs'' @ [JsonItem ?in] \<and>
     ?in = [''examples_bytes'' \<mapsto> NameOf ?examples] \<and>
     dom ?in = {''examples_bytes''} \<and>
     collections ?g' ''outputs'' = collections g ''outputs'' @ [JsonItem ?out] \<and>
     ?out = ?out \<and>
     dom ?out = {''key'', ''prediction'', ''scores''}"
    by (intro conjI refl)
  then show ?thesis
    apply -
    apply (rule exI)+
    apply assumption
    done
qed

lemma build_graph_populated:
  "\<exists>refs g'. build_graph self data_paths batch_size True g = Inr (refs, g') \<and>
      examples refs \<noteq> None \<and> train refs \<noteq> None \<and> global_step refs \<noteq> None \<and>
      length (metric_updates refs) = 2 \<and> length (metric_values refs) = 2"
  "\<exists>refs g'. build_graph self data_paths batch_size False g = Inr (refs, g') \<and>
      examples refs \<noteq> None \<and> global_step refs \<noteq> None \<and>
      length (metric_updates refs) = 2 \<and> length (metric_values refs) = 2"
proof -
  let ?ex = "snd (read_examples data_paths batch_size True None)"
  let ?labels = "ParseExample ?ex feature_map ''labels''"
  from inference_trainable [OF last_dim_images, of ?ex "hidden1 self" "hidden2 self" g]
  obtain logits g1 w where
    inf: "inference (ParseExample ?ex feature_map ''images'') (hidden1 self) (hidden2 self) g = Inr (logits, g1)"
    and w: "TensorItem w \<in> set (collections g1 ''trainable_variables'')"
      "w \<in> set (node_variables logits)"
    by blast
  from w(2) have "w \<in> set (node_variables (loss logits ?labels))"
    by (simp add: loss_def Let_def)
  from training_ok [OF w(1) this, of "learning_rate self"] obtain train_op gs g2 where
    tr: "training (loss logits ?labels) (learning_rate self) g1 = Inr ((train_op, gs), g2)"
    by blast
  from build_graph_train_explicit [OF inf tr] obtain g' mu mv where
    "build_graph self data_paths batch_size True g =
      Inr (\<lparr>examples = Some ?ex, train = Some train_op, global_step = Some gs,
            metric_updates = mu, metric_values = mv, keys = None, predictions = []\<rparr>, g')"
    "length mu = 2" "length mv = 2"
    by blast
  then show "\<exists>refs g'. build_graph self data_paths batch_size True g = Inr (refs, g') \<and>
      examples refs \<noteq> None \<and> train refs \<noteq> None \<and> global_step refs \<noteq> None \<and>
      length (metric_updates refs) = 2 \<and> length (metric_values refs) = 2"
    by simp
next
  let ?ex = "snd (read_examples data_paths batch_size False (Some 2))"
  from inference_trainable [OF last_dim_images, of ?ex "hidden1 self" "hidden2 self" g]
  obtain logits g1 where
    inf: "inference (ParseExample ?ex feature_map ''images'') (hidden1 self) (hidden2 self) g = Inr (logits, g1)"
    by blast
  from build_graph_eval_explicit [OF inf] obtain g' mu mv where
    "build_graph self data_paths batch_size False g =
      Inr (\<lparr>examples = Some ?ex, train = None,
            global_step = Some (Variable (next_id g1) ''global_step'' (InitValue (I32Scalar 0)) False),
            metric_updates = mu, metric_values = mv, keys = None, predictions = []\<rparr>, g')"
    "length mu = 2" "length mv = 2"
    by blast
  then show "\<exists>refs g'. build_graph self data_paths batch_size False g = Inr (refs, g') \<and>
      examples refs \<noteq> None \<and> global_step refs \<noteq> None \<and>
      length (metric_updates refs) = 2 \<and> length (metric_values refs) = 2"
    by simp
qed

text \<open>
  C10, as amended. For every model, export directory, graph and log,
  \<open>build_prediction_graph\<close> succeeds and returns None (the unit value), whereas
  \<open>build_train_graph\<close> and \<open>build_eval_graph\<close> return a GraphReferences whose
  examples, global step (and, when training, train operation) are set and whose two
  metric lists hold two entries each. What \<open>build_prediction_graph\<close> leaves behind is
  in the graph and the log: the six trainable variables of the three inference layers,
  one item registered under \<open>inputs\<close>, one under \<open>outputs\<close>, and one log record.
\<close>

theorem build_prediction_graph_returns_none:
  "(\<exists>inputs_item outputs_item.
      build_prediction_graph self export_dir (g, lg) =
        Inr ((),
             add_to_collection ''outputs'' outputs_item
               (add_to_collection ''inputs'' inputs_item
                  (with_trainable_variables
                     [layer_weights (next_id g) 784 (hidden1 self),
                      layer_biases (next_id g) (hidden1 self),
                      layer_weights (next_id g + 2) (hidden1 self) (hidden2 self),
                      layer_biases (next_id g + 2) (hidden2 self),
                      layer_weights (next_id g + 4) (hidden2 self) NUM_CLASSES,
                      layer_biases (next_id g + 4) NUM_CLASSES] g)),
             lg @ [''Exporting prediction graph to '' @ export_dir])) \<and>
   (\<exists>refs g'. build_train_graph self data_paths batch_size g = Inr (refs, g') \<and>
      examples refs \<noteq> None \<and> train refs \<noteq> None \<and> global_step refs \<noteq> None \<and>
      length (metric_updates refs) = 2 \<and> length (metric_values refs) = 2) \<and>
   (\<exists>refs g'. build_eval_graph self data_paths batch_size g = Inr (refs, g') \<and>
      examples refs \<noteq> None \<and> global_step refs \<noteq> None \<and>
      length (metric_updates refs) = 2 \<and> length (metric_values refs) = 2)"
proof (intro conjI)
  let ?examples = "Placeholder DT_STRING [None]"
  have "build_prediction_graph self export_dir (g, lg) =
        Inr ((),
             add_to_collection ''outputs''
               (JsonItem [''key'' \<mapsto> NameOf (ParseExample ?examples prediction_features ''key''),
                  ''prediction'' \<mapsto> NameOf (ArgMax (Softmax
                     (Relu (affine_layer (next_id g + 4)
                        (Relu (affine_layer (next_id g + 2)
                           (Relu (affine_layer (next_id g) (ParseExample ?examples prediction_features ''image'') 784 (hidden1 self)))
                              (hidden1 self) (hidden2 self))) (hidden2 self) NUM_CLASSES))) 1),
                  ''scores'' \<mapsto> NameOf (Softmax
                     (Relu (affine_layer (next_id g + 4)
                        (Relu (affine_layer (next_id g + 2)
                           (Relu (affine_layer (next_id g) (ParseExample ?examples prediction_features ''image'') 784 (hidden1 self)))
                              (hidden1 self) (hidden2 self))) (hidden2 self) NUM_CLASSES)))])
               (add_to_collection ''inputs'' (JsonItem [''examples_bytes'' \<mapsto> NameOf ?examples])
                  (with_trainable_variables
                     [layer_weights (next_id g) 784 (hidden1 self),
                      layer_biases (next_id g) (hidden1 self),
                      layer_weights (next_id g + 2) (hidden1 self) (hidden2 self),
                      layer_biases (next_id g + 2) (hidden2 self),
                      layer_weights (next_id g + 4) (hidden2 self) NUM_CLASSES,
                      layer_biases (next_id g + 4) NUM_CLASSES] g)),
             lg @ [''Exporting prediction graph to '' @ export_dir])"
    by (rule build_prediction_graph_explicit [OF inference_explicit [OF last_dim_image]])
  then show "\<exists>inputs_item outputs_item.
      build_prediction_graph self export_dir (g, lg) =
        Inr ((),
             add_to_collection ''outputs'' outputs_item
               (add_to_collection ''inputs'' inputs_item
                  (with_trainable_variables
                     [layer_weights (next_id g) 784 (hidden1 self),
                      layer_biases (next_id g) (hidden1 self),
                      layer_weights (next_id g + 2) (hidden1 self) (hidden2 self),
                      layer_biases (next_id g + 2) (hidden2 self),
                      layer_weights (next_id g + 4) (hidden2 self) NUM_CLASSES,
                      layer_biases (next_id g + 4) NUM_CLASSES] g)),
             lg @ [''Exporting prediction graph to '' @ export_dir])"
    by blast
qed (simp_all only: build_train_graph_def build_eval_graph_def build_graph_populated)

text \<open>
  C10, as stated, fails: registering the endpoint metadata is not the only effect. From
  the empty graph and the empty log, the graph that \<open>build_prediction_graph\<close> leaves
  holds six variables, all trainable, and the log one record.
\<close>

theorem build_prediction_graph_creates_variables:
  "\<exists>g' log'.
     build_prediction_graph \<lparr>learning_rate = 1 / 100, hidden1 = HIDDEN1, hidden2 = HIDDEN2\<rparr>
       ''out'' (empty_graph, []) = Inr ((), g', log') \<and>
     collections empty_graph ''variables'' = [] \<and>
     length (collections g' ''variables'') = 6 \<and>
     length (collections g' ''trainable_variables'') = 6 \<and>
     log' = [''Exporting prediction graph to out'']"
  unfolding build_prediction_graph_explicit [OF inference_explicit [OF last_dim_image]]
  by (simp add: empty_graph_def add_to_collection_def with_trainable_variables_def)

subsection \<open>The global step\<close>

lemma var_value_assign: "var_value (assign v x s) u = (if u = v then x else var_value s u)"
  by (simp add: assign_def)

lemma var_value_assign_all_other:
  "u \<notin> fst ` set ps \<Longrightarrow> var_value (assign_all ps s) u = var_value s u"
  by (induction ps arbitrary: s) (auto simp: var_value_assign)

lemma all_ok_length: "all_ok rs = Inr xs \<Longrightarrow> length xs = length rs"
proof (induction rs arbitrary: xs)
  case Nil
  then show ?case by simp
next
  case (Cons r rs)
  then show ?case
    by (cases r; cases "all_ok rs") auto
qed

lemma var_value_assign_all_zip:
  assumes "u \<notin> set vs"
  shows "var_value (assign_all (zip vs xs) s) u = var_value s u"
proof (rule var_value_assign_all_other)
  show "u \<notin> fst ` set (zip vs xs)"
    using assms by (auto dest: set_zip_leftD)
qed

lemma minimize_step_counter:
  assumes "gs \<notin> set var_list"
    and "run_op grad s (Minimize (GradientDescentOptimizer lr) loss_t var_list (Some gs)) = Inr s'"
    and "var_value s gs = I32Scalar w"
  shows "var_value s' gs = I32Scalar (w + 1)"
proof (cases "all_ok (map (\<lambda>v. then_do (grad s loss_t v)
                (apply_gradient_descent lr (var_value s v))) var_list)")
  case (Inl e)
  with assms(2) show ?thesis by simp
next
  case (Inr new_values)
  have "var_value (assign_all (zip var_list new_values) s) gs = I32Scalar w"
    using assms(1,3) by (simp add: var_value_assign_all_zip)
  with assms(2) Inr
  have "s' = assign gs (I32Scalar (w + 1)) (assign_all (zip var_list new_values) s)"
    by (simp add: Let_def)
  then show ?thesis by (simp add: var_value_assign)
qed

lemma run_op_times_counter:
  assumes "gs \<notin> set var_list"
    and "run_op_times grad (Minimize (GradientDescentOptimizer lr) loss_t var_list (Some gs)) n s = Inr s'"
    and "var_value s gs = I32Scalar w"
  shows "var_value s' gs = I32Scalar (w + of_nat n)"
  using assms(2)
proof (induction n arbitrary: s')
  case 0
  then show ?case using assms(3) by simp
next
  case (Suc n)
  from Suc.prems obtain s1 where
    s1: "run_op_times grad (Minimize (GradientDescentOptimizer lr) loss_t var_list (Some gs)) n s = Inr s1"
    and st: "run_op grad s1 (Minimize (GradientDescentOptimizer lr) loss_t var_list (Some gs)) = Inr s'"
    by (cases "run_op_times grad (Minimize (GradientDescentOptimizer lr) loss_t var_list (Some gs)) n s") auto
  from Suc.IH [OF s1] have "var_value s1 gs = I32Scalar (w + of_nat n)" .
  from minimize_step_counter [OF assms(1) st this] show ?case
    by (simp add: add.assoc)
qed


lemma fresh_ids_not_trainable:
  assumes "fresh_ids g"
  shows "Variable (next_id g) nm init tr \<notin> set (get_collection_tensors g ''trainable_variables'')"
proof
  assume "Variable (next_id g) nm init tr \<in> set (get_collection_tensors g ''trainable_variables'')"
  with assms have "next_id g < next_id g"
    by (auto simp: fresh_ids_def list_all_iff)
  then show False by simp
qed

lemma training_Inr:
  assumes "training loss_op lr g = Inr ((train_op, gs), g')"
  shows "gs = Variable (next_id g) ''global_step'' (InitValue (I32Scalar 0)) False"
    and "train_op = Minimize (GradientDescentOptimizer lr) loss_op
           (get_collection_tensors g ''trainable_variables'') (Some gs)"
  using assms
  by (auto simp: training_def tf_Variable_def minimize_def Let_def
      get_collection_tensors_def add_to_collection_def split: if_splits)

lemma var_value_initialize [simp]:
  "var_value (initialize_all_variables rnd s) (Variable i nm init tr) = initial_value rnd i init"
  by (simp add: initialize_all_variables_def)

lemma sint_of_nat_32:
  assumes "n < 2 ^ 31"
  shows "sint (of_nat n :: 32 word) = int n"
proof -
  have "int n < int (2 ^ 31)" using assms by (rule iffD2 [OF of_nat_less_iff])
  then have "int n < 2 ^ 31" by simp
  moreover have "- (2 ^ 31) \<le> int n" by simp
  ultimately have "signed_take_bit 31 (int n) = int n"
    by (intro signed_take_bit_int_eq_self) simp_all
  then show ?thesis
    by (simp add: signed_of_nat)
qed

text \<open>
  C6, as amended. In a graph whose identifiers are fresh, let \<open>training\<close> return the
  train operation and the global step. After variable initialization the global step
  reads the int32 zero. After \<open>n < 2 ^ 31\<close> completed invocations of the train
  operation, whatever the gradients were, it reads \<open>n\<close>; and one more completed
  invocation adds exactly one to it, in 32-bit arithmetic.
\<close>

theorem global_step_counts_training_invocations:
  assumes "fresh_ids g"
    and "training loss_op lr g = Inr ((train_op, gs), g')"
    and "run_op_times grad train_op n (initialize_all_variables rnd s) = Inr s'"
    and "n < 2 ^ 31"
  shows "run (initialize_all_variables rnd s) gs = Inr (I32Scalar 0) \<and>
    (\<exists>w. run s' gs = Inr (I32Scalar w) \<and> sint w = int n \<and>
       (\<forall>s''. run_op grad s' train_op = Inr s'' \<longrightarrow> run s'' gs = Inr (I32Scalar (w + 1))))"
proof -
  let ?vs = "get_collection_tensors g ''trainable_variables''"
  note tr = training_Inr [OF assms(2)]
  have gs: "gs \<notin> set ?vs"
    unfolding tr(1) by (rule fresh_ids_not_trainable [OF assms(1)])
  have init: "var_value (initialize_all_variables rnd s) gs = I32Scalar 0"
    by (simp add: tr(1))
  have run_gs: "run t gs = Inr (var_value t gs)" for t
    by (simp add: tr(1))
  from assms(3) have "var_value s' gs = I32Scalar (0 + of_nat n)"
    unfolding tr(2) by (rule run_op_times_counter [OF gs _ init])
  then have v: "var_value s' gs = I32Scalar (of_nat n)" by simp
  have step: "run s'' gs = Inr (I32Scalar (of_nat n + 1))"
    if "run_op grad s' train_op = Inr s''" for s''
    using minimize_step_counter [OF gs that [unfolded tr(2)] v] by (simp add: run_gs)
  have "run s' gs = Inr (I32Scalar (of_nat n)) \<and> sint (of_nat n :: 32 word) = int n \<and>
       (\<forall>s''. run_op grad s' train_op = Inr s'' \<longrightarrow> run s'' gs = Inr (I32Scalar (of_nat n + 1)))"
    using v step sint_of_nat_32 [OF assms(4)] by (simp add: run_gs)
  then show ?thesis
    using init by (auto simp: run_gs)
qed



lemma map2_sub_zero: "map2 (\<lambda>x d. x - lr * d) w (map (\<lambda>_. 0) w) = (w :: real list)"
  by (induction w) simp_all

lemma map2_map2_sub_zero:
  "map2 (\<lambda>w g. map2 (\<lambda>x d. x - lr * d) w g) W (map (map (\<lambda>_. 0)) W) = (W :: real list list)"
  by (induction W) (simp_all add: map2_sub_zero)

lemma apply_gradient_descent_zero:
  "is_float x \<Longrightarrow> apply_gradient_descent lr x (zeros_like x) = Inr x"
  by (cases x) (simp_all add: map2_sub_zero map2_map2_sub_zero comp_def)

lemma all_ok_map_Inr:
  "(\<And>x. x \<in> set xs \<Longrightarrow> f x = Inr (h x)) \<Longrightarrow> all_ok (map f xs) = Inr (map h xs)"
  by (induction xs) simp_all

lemma assign_same: "assign v (var_value s v) s = s"
  by (simp add: assign_def)

lemma assign_all_same: "assign_all (zip vs (map (var_value s) vs)) s = s"
  by (induction vs) (simp_all add: assign_same)

lemma assign_assign: "assign v x (assign v y s) = assign v x s"
  by (simp add: assign_def)

lemma run_op_zero_grad:
  assumes "gs \<notin> set var_list"
    and "\<And>v. v \<in> set var_list \<Longrightarrow> is_float (var_value s v)"
    and "var_value s gs = I32Scalar w"
  shows "run_op zero_grad s (Minimize (GradientDescentOptimizer lr) loss_t var_list (Some gs)) =
    Inr (assign gs (I32Scalar (w + 1)) s)"
proof -
  have "all_ok (map (\<lambda>v. then_do (zero_grad s loss_t v)
            (apply_gradient_descent lr (var_value s v))) var_list) = Inr (map (var_value s) var_list)"
    by (rule all_ok_map_Inr) (simp add: zero_grad_def apply_gradient_descent_zero assms(2))
  then show ?thesis
    by (simp add: Let_def assign_all_same assms(3))
qed

lemma run_op_times_zero_grad:
  assumes "gs \<notin> set var_list"
    and "\<And>v. v \<in> set var_list \<Longrightarrow> is_float (var_value s v)"
    and "var_value s gs = I32Scalar w"
  shows "run_op_times zero_grad (Minimize (GradientDescentOptimizer lr) loss_t var_list (Some gs)) n s =
    Inr (assign gs (I32Scalar (w + of_nat n)) s)"
proof (induction n)
  case 0
  show ?case using assign_same [of gs s] by (simp add: assms(3))
next
  case (Suc n)
  let ?s1 = "assign gs (I32Scalar (w + of_nat n)) s"
  have fl: "is_float (var_value ?s1 v)" if "v \<in> set var_list" for v
    using that assms(1,2) by (auto simp: var_value_assign)
  have "run_op zero_grad ?s1 (Minimize (GradientDescentOptimizer lr) loss_t var_list (Some gs)) =
      Inr (assign gs (I32Scalar (w + of_nat n + 1)) ?s1)"
    by (rule run_op_zero_grad [OF assms(1) fl]) (simp_all add: var_value_assign)
  then show ?case
    by (simp add: Suc.IH assign_assign ac_simps del: run_op.simps)
qed


lemma fresh_ids_with_trainable_variables:
  "fresh_ids (with_trainable_variables
      [layer_weights 0 n h1, layer_biases 0 h1, layer_weights 2 h1 h2, layer_biases 2 h2,
       layer_weights 4 h2 k, layer_biases 4 k] empty_graph)"
  by (simp add: fresh_ids_def with_trainable_variables_def empty_graph_def
      get_collection_tensors_def layer_weights_def layer_biases_def)

lemma plateau_training:
  "\<exists>logits g1 train_op gs g2.
     inference train_images HIDDEN1 HIDDEN2 empty_graph = Inr (logits, g1) \<and>
     fresh_ids g1 \<and>
     training (loss logits train_labels) (1 / 100) g1 = Inr ((train_op, gs), g2) \<and>
     (\<forall>n. run_op_times zero_grad train_op n zero_session =
            Inr (assign gs (I32Scalar (of_nat n)) zero_session))"
proof -
  let ?vars = "[layer_weights 0 784 HIDDEN1, layer_biases 0 HIDDEN1,
       layer_weights 2 HIDDEN1 HIDDEN2, layer_biases 2 HIDDEN2,
       layer_weights 4 HIDDEN2 NUM_CLASSES, layer_biases 4 NUM_CLASSES]"
  let ?g1 = "with_trainable_variables ?vars empty_graph"
  let ?logits = "Relu (affine_layer 4 (Relu (affine_layer 2
       (Relu (affine_layer 0 train_images 784 HIDDEN1)) HIDDEN1 HIDDEN2)) HIDDEN2 NUM_CLASSES)"
  let ?gs = "Variable (next_id ?g1) ''global_step'' (InitValue (I32Scalar 0)) False"
  let ?loss = "loss ?logits train_labels"
  have ld: "last_dim train_images = Some 784"
    unfolding train_images_def by (rule last_dim_images)
  have inf: "inference train_images HIDDEN1 HIDDEN2 empty_graph = Inr (?logits, ?g1)"
  proof -
    have "next_id empty_graph = 0" by (simp add: empty_graph_def)
    with inference_explicit [OF ld, of HIDDEN1 HIDDEN2 empty_graph] show ?thesis
      by (simp del: add_2_eq_Suc add_2_eq_Suc')
  qed
  have fr: "fresh_ids ?g1"
    by (rule fresh_ids_with_trainable_variables)
  have vs: "get_collection_tensors ?g1 ''trainable_variables'' = ?vars"
    by (simp add: with_trainable_variables_def empty_graph_def get_collection_tensors_def)
  have "TensorItem (layer_weights 4 HIDDEN2 NUM_CLASSES) \<in> set (collections ?g1 ''trainable_variables'')"
    by (simp add: with_trainable_variables_def)
  moreover have "layer_weights 4 HIDDEN2 NUM_CLASSES \<in> set (node_variables ?loss)"
    by (simp add: loss_def Let_def affine_layer_def layer_weights_def)
  ultimately obtain g2 where
    tr: "training ?loss (1 / 100) ?g1 =
      Inr ((Minimize (GradientDescentOptimizer (1 / 100)) ?loss ?vars (Some ?gs), ?gs), g2)"
    using training_ok [of "layer_weights 4 HIDDEN2 NUM_CLASSES" ?g1 ?loss "1 / 100"]
    unfolding vs by blast
  have notin: "?gs \<notin> set ?vars"
    using fresh_ids_not_trainable [OF fr] unfolding vs .
  have fl: "is_float (var_value zero_session v)" if "v \<in> set ?vars" for v
    using that by (auto simp: zero_session_def layer_weights_def layer_biases_def)
  have init: "var_value zero_session ?gs = I32Scalar 0"
    by (simp add: zero_session_def)
  have runs: "run_op_times zero_grad (Minimize (GradientDescentOptimizer (1 / 100)) ?loss ?vars (Some ?gs))
      n zero_session = Inr (assign ?gs (I32Scalar (of_nat n)) zero_session)" for n
    using run_op_times_zero_grad [OF notin fl init, of "1 / 100" ?loss n] by simp
  have "inference train_images HIDDEN1 HIDDEN2 empty_graph = Inr (?logits, ?g1) \<and>
     fresh_ids ?g1 \<and>
     training ?loss (1 / 100) ?g1 =
       Inr ((Minimize (GradientDescentOptimizer (1 / 100)) ?loss ?vars (Some ?gs), ?gs), g2) \<and>
     (\<forall>n. run_op_times zero_grad (Minimize (GradientDescentOptimizer (1 / 100)) ?loss ?vars (Some ?gs))
        n zero_session = Inr (assign ?gs (I32Scalar (of_nat n)) zero_session))"
    using inf fr tr runs by (intro conjI allI)
  then show ?thesis
    apply -
    apply (rule exI)+
    apply assumption
    done
qed

text \<open>
  The hypotheses of C6 hold for the network of the default model on a plateau of the
  loss (all gradients zero): three invocations complete, and the counter reads 3.
\<close>

theorem global_step_counts_training_invocations_witness:
  "\<exists>logits g1 train_op gs g2 s'.
     inference train_images HIDDEN1 HIDDEN2 empty_graph = Inr (logits, g1) \<and>
     fresh_ids g1 \<and>
     training (loss logits train_labels) (1 / 100) g1 = Inr ((train_op, gs), g2) \<and>
     run_op_times zero_grad train_op 3 zero_session = Inr s' \<and>
     (3 :: nat) < 2 ^ 31 \<and>
     run zero_session gs = Inr (I32Scalar 0) \<and>
     (\<exists>w. run s' gs = Inr (I32Scalar w) \<and> sint w = 3)"
proof -
  from plateau_training obtain logits g1 train_op gs g2 where
    inf: "inference train_images HIDDEN1 HIDDEN2 empty_graph = Inr (logits, g1)"
    and fr: "fresh_ids g1"
    and tr: "training (loss logits train_labels) (1 / 100) g1 = Inr ((train_op, gs), g2)"
    and runs: "\<And>n. run_op_times zero_grad train_op n zero_session =
            Inr (assign gs (I32Scalar (of_nat n)) zero_session)"
    by blast
  let ?s' = "assign gs (I32Scalar (of_nat 3)) zero_session"
  have r3: "run_op_times zero_grad train_op 3 (initialize_all_variables (\<lambda>_ _ _. 0) blank_session) = Inr ?s'"
    using runs [of 3] by (simp add: zero_session_def)
  have n: "(3 :: nat) < 2 ^ 31" by simp
  from global_step_counts_training_invocations [OF fr tr r3 n]
  have "run zero_session gs = Inr (I32Scalar 0) \<and> (\<exists>w. run ?s' gs = Inr (I32Scalar w) \<and> sint w = 3)"
    by (auto simp: zero_session_def)
  with inf fr tr runs [of 3] n
  have "inference train_images HIDDEN1 HIDDEN2 empty_graph = Inr (logits, g1) \<and>
     fresh_ids g1 \<and>
     training (loss logits train_labels) (1 / 100) g1 = Inr ((train_op, gs), g2) \<and>
     run_op_times zero_grad train_op 3 zero_session = Inr ?s' \<and>
     (3 :: nat) < 2 ^ 31 \<and>
     run zero_session gs = Inr (I32Scalar 0) \<and>
     (\<exists>w. run ?s' gs = Inr (I32Scalar w) \<and> sint w = 3)"
    by (intro conjI) simp_all
  then show ?thesis
    apply -
    apply (rule exI)+
    apply assumption
    done
qed

text \<open>
  C6, as stated, fails: the counter is an int32. On the same plateau \<open>2 ^ 31\<close>
  invocations complete, and the counter then reads \<open>- 2 ^ 31\<close>: it is not the number
  of completed invocations, and it has decreased.
\<close>

theorem global_step_wraps_at_two_to_the_31:
  "\<exists>logits g1 train_op gs g2 s'.
     inference train_images HIDDEN1 HIDDEN2 empty_graph = Inr (logits, g1) \<and>
     training (loss logits train_labels) (1 / 100) g1 = Inr ((train_op, gs), g2) \<and>
     run_op_times zero_grad train_op (2 ^ 31) zero_session = Inr s' \<and>
     run s' gs = Inr (I32Scalar (- 2147483648)) \<and>
     sint (- 2147483648 :: 32 word) = - 2147483648"
proof -
  from plateau_training obtain logits g1 train_op gs g2 where
    inf: "inference train_images HIDDEN1 HIDDEN2 empty_graph = Inr (logits, g1)"
    and fr: "fresh_ids g1"
    and tr: "training (loss logits train_labels) (1 / 100) g1 = Inr ((train_op, gs), g2)"
    and runs: "\<And>n. run_op_times zero_grad train_op n zero_session =
            Inr (assign gs (I32Scalar (of_nat n)) zero_session)"
    by blast
  have w: "(of_nat (2 ^ 31) :: 32 word) = - 2147483648"
    by (simp only: of_nat_power of_nat_numeral) simp
  let ?s' = "assign gs (I32Scalar (- 2147483648)) zero_session"
  have r: "run_op_times zero_grad train_op (2 ^ 31) zero_session = Inr ?s'"
    using runs [of "2 ^ 31"] by (simp only: w)
  have gs: "gs = Variable (next_id g1) ''global_step'' (InitValue (I32Scalar 0)) False"
    by (rule training_Inr(1) [OF tr])
  have v: "run ?s' gs = Inr (I32Scalar (- 2147483648))"
    by (simp add: gs var_value_assign)
  have s: "sint (- 2147483648 :: 32 word) = - 2147483648" by simp
  from inf tr r v s
  have "inference train_images HIDDEN1 HIDDEN2 empty_graph = Inr (logits, g1) \<and>
     training (loss logits train_labels) (1 / 100) g1 = Inr ((train_op, gs), g2) \<and>
     run_op_times zero_grad train_op (2 ^ 31) zero_session = Inr ?s' \<and>
     run ?s' gs = Inr (I32Scalar (- 2147483648)) \<and>
     sint (- 2147483648 :: 32 word) = - 2147483648"
    by (intro conjI)
  then show ?thesis
    apply -
    apply (rule exI)+
    apply assumption
    done
qed

subsection \<open>The model factory\<close>

lemma flag_in_args_append:
  "flag_in_args k (xs @ ys) \<longleftrightarrow> flag_in_args k xs \<or> flag_in_args k ys"
  by (simp add: flag_in_args_def)

lemma inject_defaults_append:
  assumes "independent_flags kvs"
    and "list_all (\<lambda>kv. \<not> flag_in_args (fst kv) ys) kvs"
  shows "inject_defaults kvs (args @ ys) =
    args @ ys @ concat (map (\<lambda>kv. if flag_in_args (fst kv) args then [] else [fst kv, snd kv]) kvs)"
  using assms
proof (induction kvs arbitrary: ys)
  case Nil
  then show ?case by simp
next
  case (Cons kv kvs)
  let ?new = "if flag_in_args (fst kv) args then [] else [fst kv, snd kv]"
  from Cons.prems(2) have "\<not> flag_in_args (fst kv) ys" by simp
  then have ov: "override_if_not_in_args (fst kv) (snd kv) (args @ ys) = args @ (ys @ ?new)"
    by (simp add: override_if_not_in_args_def flag_in_args_append)
  have la: "list_all (\<lambda>kv'. \<not> flag_in_args (fst kv') (ys @ ?new)) kvs"
    using Cons.prems by (auto simp: list_all_iff flag_in_args_append flag_in_args_def)
  have ind: "independent_flags kvs" using Cons.prems(1) by simp
  from ind la have "inject_defaults kvs (args @ (ys @ ?new)) =
    args @ (ys @ ?new) @
      concat (map (\<lambda>kv. if flag_in_args (fst kv) args then [] else [fst kv, snd kv]) kvs)"
    by (rule Cons.IH)
  then show ?case by (simp add: ov)
qed

lemma independent_task_defaults: "independent_flags task_defaults"
  by (simp add: task_defaults_def arg_sets_flag_def)

lemma inject_task_defaults:
  "inject_defaults task_defaults task_args = task_args @ missing_defaults task_args"
  using inject_defaults_append [OF independent_task_defaults, of "[]" task_args]
  by (simp add: missing_defaults_def flag_in_args_def list_all_iff)

lemma missing_defaults_explicit:
  "missing_defaults task_args =
     (if flag_in_args ''--max_steps'' task_args then [] else [''--max_steps'', ''5000'']) @
     (if flag_in_args ''--batch_size'' task_args then [] else [''--batch_size'', ''100'']) @
     (if flag_in_args ''--eval_set_size'' task_args then [] else [''--eval_set_size'', ''10000'']) @
     (if flag_in_args ''--eval_interval_secs'' task_args then [] else [''--eval_interval_secs'', ''1'']) @
     (if flag_in_args ''--log_interval_secs'' task_args then [] else [''--log_interval_secs'', ''1'']) @
     (if flag_in_args ''--min_train_eval_rate'' task_args then [] else [''--min_train_eval_rate'', ''1''])"
  by (simp add: missing_defaults_def task_defaults_def)

text \<open>
  C5. Whenever the parser, configured with the one float option \<open>--learning_rate\<close> of
  default 0.01, returns a namespace and residual arguments, \<open>create_model\<close> returns the
  model with the parsed learning rate and the hidden widths 128 and 32, and the
  residual arguments followed by the default of each of the six flags, in order, that
  the residual arguments do not already set: nothing the caller supplied is removed or
  changed, and a flag the caller set gets no default.
\<close>

theorem create_model_injects_missing_defaults:
  assumes "parse_known_args (add_argument ''--learning_rate'' (1 / 100) []) argv = Inr (args, task_args)"
    and "args ''learning_rate'' = Some lr"
  shows "create_model parse_known_args argv =
     Inr (\<lparr>learning_rate = lr, hidden1 = 128, hidden2 = 32\<rparr>,
          task_args @
          (if flag_in_args ''--max_steps'' task_args then [] else [''--max_steps'', ''5000'']) @
          (if flag_in_args ''--batch_size'' task_args then [] else [''--batch_size'', ''100'']) @
          (if flag_in_args ''--eval_set_size'' task_args then [] else [''--eval_set_size'', ''10000'']) @
          (if flag_in_args ''--eval_interval_secs'' task_args then [] else [''--eval_interval_secs'', ''1'']) @
          (if flag_in_args ''--log_interval_secs'' task_args then [] else [''--log_interval_secs'', ''1'']) @
          (if flag_in_args ''--min_train_eval_rate'' task_args then []
           else [''--min_train_eval_rate'', ''1'']))"
proof -
  have "create_model parse_known_args argv =
     Inr (\<lparr>learning_rate = lr, hidden1 = 128, hidden2 = 32\<rparr>, inject_defaults task_defaults task_args)"
    using assms
    by (simp add: create_model_def Let_def py_getattr_def HIDDEN1_def HIDDEN2_def task_defaults_def)
  then show ?thesis
    by (simp only: inject_task_defaults missing_defaults_explicit)
qed

text \<open>
  The hypotheses of C5 hold for the arguments \<open>--batch_size=50\<close>: the learning rate is
  the default, 50 stays, and the five other defaults are appended.
\<close>

theorem create_model_injects_missing_defaults_witness:
  "parse_no_options (add_argument ''--learning_rate'' (1 / 100) []) [''--batch_size=50''] =
     Inr ([''learning_rate'' \<mapsto> 1 / 100], [''--batch_size=50'']) \<and>
   [''learning_rate'' \<mapsto> 1 / 100 :: real] ''learning_rate'' = Some (1 / 100) \<and>
   create_model parse_no_options [''--batch_size=50''] =
     Inr (\<lparr>learning_rate = 1 / 100, hidden1 = 128, hidden2 = 32\<rparr>,
          [''--batch_size=50'', ''--max_steps'', ''5000'', ''--eval_set_size'', ''10000'',
           ''--eval_interval_secs'', ''1'', ''--log_interval_secs'', ''1'',
           ''--min_train_eval_rate'', ''1''])"
proof -
  have p: "parse_no_options (add_argument ''--learning_rate'' (1 / 100) []) [''--batch_size=50''] =
     Inr ([''learning_rate'' \<mapsto> 1 / 100], [''--batch_size=50''])"
    by (simp add: parse_no_options_def add_argument_def)
  have a: "[''learning_rate'' \<mapsto> 1 / 100 :: real] ''learning_rate'' = Some (1 / 100)"
    by simp
  have f: "flag_in_args ''--batch_size'' [''--batch_size=50'']"
    "\<not> flag_in_args ''--max_steps'' [''--batch_size=50'']"
    "\<not> flag_in_args ''--eval_set_size'' [''--batch_size=50'']"
    "\<not> flag_in_args ''--eval_interval_secs'' [''--batch_size=50'']"
    "\<not> flag_in_args ''--log_interval_secs'' [''--batch_size=50'']"
    "\<not> flag_in_args ''--min_train_eval_rate'' [''--batch_size=50'']"
    by (simp_all add: flag_in_args_def arg_sets_flag_def)
  from create_model_injects_missing_defaults
         [where parse_known_args = parse_no_options and argv = "[''--batch_size=50'']"
            and args = "[''learning_rate'' \<mapsto> 1 / 100]" and task_args = "[''--batch_size=50'']"
            and lr = "1 / 100", OF p a] p a
  show ?thesis
    by (simp only: f if_True if_False append_Nil append_Cons append_Nil2 simp_thms)
qed

subsection \<open>Parsing examples\<close>

lemma then_do2_Inr [simp]: "then_do2 (Inr x) (Inr y) f = f x y"
  by (simp add: then_do2_def)

lemma decode_all_Inr:
  assumes "list_all2 (\<lambda>r ex. decode r = Some ex) rs exs"
  shows "decode_all decode rs = Inr exs"
  using assms unfolding decode_all_def
  by (induction rs exs rule: list_all2_induct) simp_all

lemma concat_map_singleton: "concat (map (\<lambda>x. [f x]) xs) = map f xs"
  by (induction xs) simp_all

lemma labels_column:
  assumes "\<And>ex. ex \<in> set exs \<Longrightarrow> well_formed_record ex"
  shows "parse_column exs (''labels'', FixedLenFeature [] DT_INT64 (Some (Int64List [- 1]))) =
    Inr (I64Vec (map record_label exs))"
proof -
  let ?spec = "FixedLenFeature [] DT_INT64 (Some (Int64List [- 1]))"
  have one: "dense_feature ?spec (ex ''labels'') = Inr (Int64List [record_label ex])"
    if "ex \<in> set exs" for ex
    using assms [OF that]
    by (auto simp: well_formed_record_def record_label_def
        split: option.splits feature.splits list.splits)
  have "all_ok (map (\<lambda>ex. dense_feature ?spec (ex ''labels'')) exs) =
      Inr (map (\<lambda>ex. Int64List [record_label ex]) exs)"
    by (rule all_ok_map_Inr) (rule one)
  then show ?thesis
    by (simp add: parse_column_def stack_features_def comp_def concat_map_singleton)
qed

lemma images_column:
  assumes "\<And>ex. ex \<in> set exs \<Longrightarrow> well_formed_record ex"
  shows "parse_column exs (''images'', FixedLenFeature [IMAGE_PIXELS] DT_FLOAT None) =
    Inr (FMat (map record_image exs))"
proof -
  let ?spec = "FixedLenFeature [IMAGE_PIXELS] DT_FLOAT None"
  have one: "dense_feature ?spec (ex ''images'') = Inr (FloatList (record_image ex))"
    if "ex \<in> set exs" for ex
    using assms [OF that]
    by (auto simp: well_formed_record_def record_image_def
        split: option.splits feature.splits)
  have "all_ok (map (\<lambda>ex. dense_feature ?spec (ex ''images'')) exs) =
      Inr (map (\<lambda>ex. FloatList (record_image ex)) exs)"
    by (rule all_ok_map_Inr) (rule one)
  then show ?thesis
    by (simp add: parse_column_def stack_features_def comp_def)
qed

lemma parse_example_kernel_feature_map:
  assumes "list_all2 (\<lambda>r ex. decode r = Some ex) rs exs"
    and "\<And>ex. ex \<in> set exs \<Longrightarrow> well_formed_record ex"
  shows "parse_example_kernel decode feature_map (SVec rs) =
    Inr [''images'' \<mapsto> FMat (map record_image exs), ''labels'' \<mapsto> I64Vec (map record_label exs)]"
  by (simp add: decode_all_Inr [OF assms(1)] feature_map_def
      labels_column [OF assms(2)] images_column [OF assms(2)])

lemma record_image_length: "well_formed_record ex \<Longrightarrow> length (record_image ex) = 784"
  by (auto simp: well_formed_record_def record_image_def IMAGE_PIXELS_def IMAGE_SIZE_def
      split: option.splits feature.splits)

text \<open>
  C4. Let the serialized batch hold \<open>N\<close> records that decode to well-formed examples.
  Then \<open>parse_examples\<close> returns a dict with exactly the keys \<open>images\<close> and \<open>labels\<close>;
  the images tensor evaluates to the float matrix whose \<open>N\<close> rows are the records'
  784 image values, unchanged and in order, and the labels tensor to the int64 vector
  of the records' \<open>N\<close> labels, where a record without a labels feature gets \<open>-1\<close>.
\<close>

theorem parse_examples_round_trip:
  assumes "run s examples_t = Inr (SVec rs)"
    and "list_all2 (\<lambda>r ex. decode_example s r = Some ex) rs exs"
    and "\<forall>ex \<in> set exs. well_formed_record ex"
  shows "dom (parse_examples examples_t) = {''images'', ''labels''} \<and>
    (\<exists>images_t labels_t.
       parse_examples examples_t ''images'' = Some images_t \<and>
       parse_examples examples_t ''labels'' = Some labels_t \<and>
       run s images_t = Inr (FMat (map record_image exs)) \<and>
       run s labels_t = Inr (I64Vec (map record_label exs))) \<and>
    length (map record_image exs) = length rs \<and>
    list_all (\<lambda>row. length row = 784) (map record_image exs) \<and>
    length (map record_label exs) = length rs \<and>
    list_all2 (\<lambda>ex l. ex ''labels'' = None \<longrightarrow> l = - 1) exs (map record_label exs)"
proof -
  have wf: "well_formed_record ex" if "ex \<in> set exs" for ex
    using assms(3) that by blast
  note k = parse_example_kernel_feature_map [OF assms(2) wf]
  have d: "dom (parse_examples examples_t) = {''images'', ''labels''}"
    by (auto simp: parse_examples_def tf_parse_example_def feature_map_def split: if_splits)
  have i: "parse_examples examples_t ''images'' = Some (ParseExample examples_t feature_map ''images'')"
    and l: "parse_examples examples_t ''labels'' = Some (ParseExample examples_t feature_map ''labels'')"
    by (simp_all add: parse_examples_def tf_parse_example_def feature_map_def)
  have ri: "run s (ParseExample examples_t feature_map ''images'') = Inr (FMat (map record_image exs))"
    by (simp add: assms(1) k py_getitem_def del: parse_example_kernel.simps)
  have rl: "run s (ParseExample examples_t feature_map ''labels'') = Inr (I64Vec (map record_label exs))"
    by (simp add: assms(1) k py_getitem_def del: parse_example_kernel.simps)
  have len: "length exs = length rs"
    using assms(2) by (simp add: list_all2_lengthD)
  have rows: "list_all (\<lambda>row. length row = 784) (map record_image exs)"
    using wf by (simp add: list_all_iff record_image_length)
  have dflt: "list_all2 (\<lambda>ex l. ex ''labels'' = None \<longrightarrow> l = - 1) exs (map record_label exs)"
    by (simp add: list_all2_map2 list_all2_same record_label_def)
  from d i l ri rl len rows dflt show ?thesis by simp
qed


lemma run_train_examples: "run pipeline_session train_examples = Inr (SVec [''r1'', ''r2''])"
  by (simp add: train_examples_def read_examples_def pipeline_session_def fetch_source_def)

lemma well_formed_samples: "well_formed_record labelled_record" "well_formed_record unlabelled_record"
  by (simp_all add: well_formed_record_def labelled_record_def unlabelled_record_def
      IMAGE_PIXELS_def IMAGE_SIZE_def)

text \<open>
  The hypotheses of C4 hold for the batch of a labelled and an unlabelled record.
\<close>

theorem parse_examples_round_trip_witness:
  "run pipeline_session train_examples = Inr (SVec [''r1'', ''r2'']) \<and>
   list_all2 (\<lambda>r ex. decode_example pipeline_session r = Some ex) [''r1'', ''r2'']
     [labelled_record, unlabelled_record] \<and>
   well_formed_record labelled_record \<and> well_formed_record unlabelled_record \<and>
   dom (parse_examples train_examples) = {''images'', ''labels''} \<and>
   (\<exists>images_t labels_t.
       parse_examples train_examples ''images'' = Some images_t \<and>
       parse_examples train_examples ''labels'' = Some labels_t \<and>
       run pipeline_session images_t = Inr (FMat [replicate 784 (1 / 2), replicate 784 0]) \<and>
       run pipeline_session labels_t = Inr (I64Vec [7, - 1]))"
proof -
  have h2: "list_all2 (\<lambda>r ex. decode_example pipeline_session r = Some ex) [''r1'', ''r2'']
     [labelled_record, unlabelled_record]"
    by (simp add: pipeline_session_def)
  have h3: "\<forall>ex \<in> set [labelled_record, unlabelled_record]. well_formed_record ex"
    by (simp add: well_formed_samples)
  have v: "map record_image [labelled_record, unlabelled_record] = [replicate 784 (1 / 2), replicate 784 0]"
    "map record_label [labelled_record, unlabelled_record] = [7, - 1]"
    by (simp_all add: record_image_def record_label_def labelled_record_def unlabelled_record_def)
  from parse_examples_round_trip [OF run_train_examples h2 h3]
  show ?thesis
    unfolding v using run_train_examples h2 well_formed_samples by blast
qed

subsection \<open>Accuracy\<close>

lemma labels_fitI:
  assumes "length ls = length rows"
    and "\<forall>r \<in> set rows. length r = NUM_CLASSES"
    and "\<forall>l \<in> set ls. 0 \<le> l \<and> l \<le> 9"
  shows "labels_fit rows ls"
proof -
  have "0 \<le> ls ! i \<and> ls ! i < int (length (rows ! i))" if "i < length rows" for i
  proof -
    have "ls ! i \<in> set ls" "rows ! i \<in> set rows"
      using that assms(1) by simp_all
    with assms(2,3) show ?thesis
      by (auto simp: NUM_CLASSES_def)
  qed
  then show ?thesis
    using assms(1) by (simp add: labels_fit_def list_all2_conv_all_nth)
qed

lemma in_top_1_iff: "in_top_k_row 1 r l \<longleftrightarrow> label_is_max r l"
  by (auto simp: in_top_k_row_def label_is_max_def list_all_iff filter_empty_conv not_less)

lemma unique_max_is_max: "label_is_unique_max r l \<Longrightarrow> label_is_max r l"
proof -
  assume u: "label_is_unique_max r l"
  have "x \<le> r ! nat l" if "x \<in> set r" for x
  proof -
    from that obtain j where j: "j < length r" "x = r ! j"
      by (auto simp: in_set_conv_nth)
    with u have "j = nat l \<or> r ! j < r ! nat l"
      by (simp add: label_is_unique_max_def list_all_iff)
    with j(2) show ?thesis by auto
  qed
  then show ?thesis
    by (simp add: label_is_max_def list_all_iff)
qed

lemma sum_list_indicator:
  "sum_list (map (\<lambda>b. if b then 1 else 0 :: real) bs) = real (length (filter id bs))"
  by (induction bs) simp_all

lemma tf_in_top_k_fit:
  assumes "class_indices lv = Some ls" and "labels_fit rows ls"
  shows "tf_in_top_k k (FMat rows) lv = Inr (BVec (map2 (in_top_k_row k) rows ls))"
  using assms by (simp add: tf_in_top_k_def)

lemma run_evaluation:
  assumes "run s logits = Inr (FMat rows)" and "run s labels = Inr lv"
    and "class_indices lv = Some ls" and "labels_fit rows ls" and "rows \<noteq> []"
  shows "run s (evaluation logits labels) =
    Inr (FScalar (real (length (filter id (map2 label_is_max rows ls))) / real (length rows)))"
proof -
  let ?bs = "map2 label_is_max rows ls"
  let ?xs = "map (\<lambda>b. if b then 1 else 0 :: real) ?bs"
  have len: "length ls = length rows"
    using assms(4) by (simp add: labels_fit_def)
  have eq: "map2 (in_top_k_row 1) rows ls = ?bs"
    by (rule map_cong) (auto simp: in_top_1_iff [unfolded One_nat_def])
  have t: "then_do2 (run s logits) (run s labels) (tf_in_top_k 1) = Inr (BVec ?bs)"
    unfolding assms(1,2) then_do2_Inr tf_in_top_k_fit [OF assms(3,4)] eq ..
  have c: "tf_cast DT_FLOAT (BVec ?bs) = Inr (FVec ?xs)"
    by simp
  have "?xs \<noteq> []"
    using assms(5) len by (cases rows; cases ls) simp_all
  then have "mean ?xs = FScalar (sum_list ?xs / real (length ?xs))"
    by (simp only: mean_def if_False)
  also have "sum_list ?xs = real (length (filter id ?bs))"
    by (rule sum_list_indicator)
  also have "length ?xs = length rows"
    using len by simp
  finally have m: "tf_reduce_mean (FVec ?xs) =
      Inr (FScalar (real (length (filter id ?bs)) / real (length rows)))"
    by (simp only: tf_reduce_mean.simps)
  have "run s (evaluation logits labels) =
      then_do (then_do (then_do2 (run s logits) (run s labels) (tf_in_top_k 1)) (tf_cast DT_FLOAT))
        tf_reduce_mean"
    by (simp only: evaluation_def Let_def run.simps)
  then show ?thesis
    by (simp only: t then_do_Inr c m)
qed

lemma filter_id_all: "list_all id bs \<Longrightarrow> filter id bs = bs"
  by (induction bs) simp_all

lemma filter_id_none: "list_all Not bs \<Longrightarrow> filter id bs = []"
  by (induction bs) simp_all

lemma list_all_map2:
  "length xs = length ys \<Longrightarrow> list_all P (map2 f xs ys) \<longleftrightarrow> list_all2 (\<lambda>x y. P (f x y)) xs ys"
  by (induction xs ys rule: list_induct2) simp_all

text \<open>
  C2. Let the logits evaluate to a non-empty batch of rows of 10 scores and the labels
  to as many class indices in 0..9 (int32 or int64). Then \<open>evaluation\<close> evaluates to a
  float scalar in [0, 1], the share of the examples whose labelled class scores
  highest; it is exactly 1 when in every example the labelled class is the unique
  maximum, and exactly 0 when in no example the labelled class scores highest.
\<close>

theorem evaluation_is_top_1_accuracy:
  assumes "run s logits = Inr (FMat rows)"
    and "run s labels = Inr lv"
    and "class_indices lv = Some ls"
    and "rows \<noteq> []"
    and "length ls = length rows"
    and "\<forall>r \<in> set rows. length r = NUM_CLASSES"
    and "\<forall>l \<in> set ls. 0 \<le> l \<and> l \<le> 9"
  shows "\<exists>a. run s (evaluation logits labels) = Inr (FScalar a) \<and> 0 \<le> a \<and> a \<le> 1 \<and>
    a = real (length (filter id (map2 label_is_max rows ls))) / real (length rows) \<and>
    (list_all2 label_is_unique_max rows ls \<longrightarrow> a = 1) \<and>
    (list_all2 (\<lambda>r l. \<not> label_is_max r l) rows ls \<longrightarrow> a = 0)"
proof -
  let ?bs = "map2 label_is_max rows ls"
  let ?a = "real (length (filter id ?bs)) / real (length rows)"
  have fit: "labels_fit rows ls"
    by (rule labels_fitI [OF assms(5,6,7)])
  have r: "run s (evaluation logits labels) = Inr (FScalar ?a)"
    by (rule run_evaluation [OF assms(1,2,3) fit assms(4)])
  have n: "0 < length rows" using assms(4) by simp
  have lb: "length ?bs = length rows" using assms(5) by simp
  have "length (filter id ?bs) \<le> length rows"
    using length_filter_le [of id ?bs] lb by simp
  then have bounds: "0 \<le> ?a" "?a \<le> 1"
    using n by simp_all
  have one: "?a = 1" if "list_all2 label_is_unique_max rows ls"
  proof -
    from that have "list_all2 label_is_max rows ls"
      by (rule list_all2_mono) (rule unique_max_is_max)
    then have "list_all id ?bs"
      using assms(5) by (simp add: list_all_map2)
    then have "filter id ?bs = ?bs" by (rule filter_id_all)
    then show ?thesis using n lb by simp
  qed
  have zero: "?a = 0" if "list_all2 (\<lambda>r l. \<not> label_is_max r l) rows ls"
  proof -
    from that have "list_all Not ?bs"
      using assms(5) by (simp add: list_all_map2)
    then have "filter id ?bs = []" by (rule filter_id_none)
    then show ?thesis by simp
  qed
  from r bounds one zero show ?thesis by blast
qed


lemma run_fed_session:
  "run fed_session logits_in = Inr (FMat sample_logits)"
  "run fed_session labels_in = Inr (I64Vec [3, 1])"
  by (simp_all add: fed_session_def logits_in_def labels_in_def fetch_source_def)

lemma sample_logits_facts:
  "sample_logits \<noteq> []"
  "length [3, 1 :: int] = length sample_logits"
  "\<forall>r \<in> set sample_logits. length r = NUM_CLASSES"
  "list_all2 label_is_unique_max sample_logits [3, 1]"
  by (simp_all add: sample_logits_def NUM_CLASSES_def label_is_unique_max_def upt_conv_Cons)

text \<open>
  The hypotheses of C2 hold for the fed batch of two examples, both predicted
  correctly: the accuracy is 1.
\<close>

theorem evaluation_is_top_1_accuracy_witness:
  "run fed_session logits_in = Inr (FMat sample_logits) \<and>
   run fed_session labels_in = Inr (I64Vec [3, 1]) \<and>
   class_indices (I64Vec [3, 1]) = Some [3, 1] \<and>
   sample_logits \<noteq> [] \<and> length [3, 1 :: int] = length sample_logits \<and>
   list_all (\<lambda>r. length r = NUM_CLASSES) sample_logits \<and>
   list_all (\<lambda>l. 0 \<le> l \<and> l \<le> 9) [3, 1 :: int] \<and>
   list_all2 label_is_unique_max sample_logits [3, 1] \<and>
   run fed_session (evaluation logits_in labels_in) = Inr (FScalar 1)"
proof -
  have ci: "class_indices (I64Vec [3, 1]) = Some [3, 1]" by simp
  have rng: "\<forall>l \<in> set [3, 1 :: int]. 0 \<le> l \<and> l \<le> 9" by simp
  from evaluation_is_top_1_accuracy [OF run_fed_session ci sample_logits_facts(1,2,3) rng]
    sample_logits_facts(4)
  have "run fed_session (evaluation logits_in labels_in) = Inr (FScalar 1)"
    by auto
  with run_fed_session ci sample_logits_facts rng show ?thesis
    by (simp add: list_all_iff)
qed

subsection \<open>Loss\<close>

lemma sint_scast_32_64: "sint (scast (x :: 32 word) :: 64 word) = sint x"
  by (rule sint_up_scast) (simp add: is_up)

lemma to_int64_indices:
  assumes "class_indices lv = Some ls"
  shows "\<exists>ws. tf_to_int64 lv = Inr (I64Vec ws) \<and> map sint ws = ls"
  using assms by (cases lv) (auto simp: comp_def sint_scast_32_64)

lemma sum_list_exp_nonneg: "0 \<le> sum_list (map exp (r :: real list))"
  by (rule sum_list_nonneg) auto

lemma sum_list_exp_pos: "r \<noteq> [] \<Longrightarrow> 0 < sum_list (map exp (r :: real list))"
  by (cases r) (simp_all add: add_pos_nonneg sum_list_exp_nonneg)

lemma softmax_prob:
  assumes "j < length r"
  shows "0 < softmax_row r ! j" and "softmax_row r ! j \<le> 1"
proof -
  let ?S = "sum_list (map exp r)"
  have ne: "r \<noteq> []" using assms by auto
  have S: "0 < ?S" by (rule sum_list_exp_pos [OF ne])
  have eq: "softmax_row r ! j = exp (r ! j) / ?S"
    using assms by (simp add: softmax_row_def)
  have "exp (r ! j) \<in> set (map exp r)"
    using assms by (auto simp: in_set_conv_nth intro!: image_eqI [where x = "r ! j"])
  moreover have "0 \<le> x" if "x \<in> set (map exp r)" for x
    using that by auto
  ultimately have "exp (r ! j) \<le> ?S"
    by (intro member_le_sum_list) auto
  with S show "0 < softmax_row r ! j" "softmax_row r ! j \<le> 1"
    by (simp_all add: eq)
qed

lemma xent_row_nonneg:
  assumes "0 \<le> l" and "l < int (length r)"
  shows "0 \<le> xent_row r l"
proof -
  have "nat l < length r" using assms by simp
  from softmax_prob [OF this] show ?thesis
    by (simp add: xent_row_def)
qed

lemma xent_row_small:
  assumes "0 \<le> l" and "l < int (length r)" and "exp (- e) < softmax_row r ! nat l"
  shows "xent_row r l < e"
proof -
  have "nat l < length r" using assms by simp
  from softmax_prob(1) [OF this] have p: "0 < softmax_row r ! nat l" .
  have "ln (exp (- e)) < ln (softmax_row r ! nat l)"
    using assms(3) p by (subst ln_less_cancel_iff) simp_all
  then show ?thesis
    by (simp add: xent_row_def)
qed

lemma sum_list_less:
  assumes "xs \<noteq> []" and "\<And>x. x \<in> set xs \<Longrightarrow> x < (e :: real)"
  shows "sum_list xs < e * real (length xs)"
  using assms
proof (induction xs)
  case Nil
  then show ?case by simp
next
  case (Cons x xs)
  show ?case
  proof (cases "xs = []")
    case True
    with Cons.prems(2) [of x] show ?thesis by simp
  next
    case False
    have "sum_list xs < e * real (length xs)"
      by (rule Cons.IH [OF False]) (simp add: Cons.prems(2))
    moreover have "x < e" by (simp add: Cons.prems(2))
    ultimately show ?thesis by (simp add: algebra_simps)
  qed
qed

lemma run_loss:
  assumes "run s logits = Inr (FMat rows)" and "run s labels = Inr lv"
    and "class_indices lv = Some ls" and "labels_fit rows ls" and "rows \<noteq> []"
  shows "run s (loss logits labels) =
    Inr (FScalar (sum_list (map2 xent_row rows ls) / real (length rows)))"
proof -
  let ?xs = "map2 xent_row rows ls"
  from to_int64_indices [OF assms(3)] obtain ws where
    ws: "tf_to_int64 lv = Inr (I64Vec ws)" "map sint ws = ls" by blast
  have len: "length ls = length rows"
    using assms(4) by (simp add: labels_fit_def)
  have c: "then_do (run s labels) tf_to_int64 = Inr (I64Vec ws)"
    by (simp only: assms(2) then_do_Inr ws(1))
  have x: "tf_sparse_softmax_cross_entropy_with_logits (FMat rows) (I64Vec ws) = Inr (FVec ?xs)"
    using assms(4) by (simp add: tf_sparse_softmax_cross_entropy_with_logits_def ws(2))
  have "?xs \<noteq> []"
    using assms(5) len by (cases rows; cases ls) simp_all
  then have "mean ?xs = FScalar (sum_list ?xs / real (length ?xs))"
    by (simp only: mean_def if_False)
  also have "length ?xs = length rows"
    using len by simp
  finally have m: "tf_reduce_mean (FVec ?xs) = Inr (FScalar (sum_list ?xs / real (length rows)))"
    by (simp only: tf_reduce_mean.simps)
  have "run s (loss logits labels) =
      then_do (then_do2 (run s logits) (then_do (run s labels) tf_to_int64)
                 tf_sparse_softmax_cross_entropy_with_logits) tf_reduce_mean"
    by (simp only: loss_def Let_def run.simps)
  then show ?thesis
    by (simp only: c assms(1) then_do2_Inr x then_do_Inr m)
qed


text \<open>
  C3. Let the logits evaluate to a non-empty batch of rows of 10 scores and the labels
  to as many class indices in 0..9 (int32 or int64). \<open>loss\<close> is the mean of the sparse
  softmax cross-entropy of the logits and the labels cast to int64, and the cast keeps
  the class indices. It evaluates to a float scalar: the batch mean of minus the
  logarithm of the softmax probability of the labelled class. The scalar is
  non-negative, and it is below any \<open>e > 0\<close> as soon as every example's softmax
  probability of its labelled class is above \<open>exp (- e)\<close>, a bound that tends to 1 as
  \<open>e\<close> tends to 0.
\<close>

theorem loss_is_mean_cross_entropy:
  assumes "run s logits = Inr (FMat rows)"
    and "run s labels = Inr lv"
    and "class_indices lv = Some ls"
    and "rows \<noteq> []"
    and "length ls = length rows"
    and "\<forall>r \<in> set rows. length r = NUM_CLASSES"
    and "\<forall>l \<in> set ls. 0 \<le> l \<and> l \<le> 9"
  shows "loss logits labels =
      ReduceMean (SparseSoftmaxCrossEntropyWithLogits logits (ToInt64 labels)) \<and>
    (\<exists>ws. run s (ToInt64 labels) = Inr (I64Vec ws) \<and> map sint ws = ls) \<and>
    (\<exists>v. run s (loss logits labels) = Inr (FScalar v) \<and>
       v = sum_list (map2 (\<lambda>r l. - ln (softmax_row r ! nat l)) rows ls) / real (length rows) \<and>
       0 \<le> v \<and>
       (\<forall>e > 0. list_all2 (\<lambda>r l. exp (- e) < softmax_row r ! nat l) rows ls \<longrightarrow> v < e))"
proof -
  let ?xs = "map2 xent_row rows ls"
  let ?v = "sum_list ?xs / real (length rows)"
  have fit: "labels_fit rows ls"
    by (rule labels_fitI [OF assms(5,6,7)])
  have n: "0 < length rows" using assms(4) by simp
  have st: "loss logits labels =
      ReduceMean (SparseSoftmaxCrossEntropyWithLogits logits (ToInt64 labels))"
    by (simp add: loss_def Let_def)
  from to_int64_indices [OF assms(3)]
  have cast: "\<exists>ws. run s (ToInt64 labels) = Inr (I64Vec ws) \<and> map sint ws = ls"
    by (simp add: assms(2))
  have r: "run s (loss logits labels) = Inr (FScalar ?v)"
    by (rule run_loss [OF assms(1,2,3) fit assms(4)])
  have xs: "?xs = map2 (\<lambda>r l. - ln (softmax_row r ! nat l)) rows ls"
    by (simp add: xent_row_def)
  have rng: "0 \<le> l \<and> l < int (length r)" if "(r, l) \<in> set (zip rows ls)" for r l
    using fit that by (auto simp: labels_fit_def list_all2_iff)
  have "0 \<le> x" if "x \<in> set ?xs" for x
    using that rng by (auto simp: xent_row_nonneg)
  then have "0 \<le> sum_list ?xs" by (rule sum_list_nonneg)
  then have nonneg: "0 \<le> ?v" by simp
  have small: "?v < e"
    if "0 < e" and "list_all2 (\<lambda>r l. exp (- e) < softmax_row r ! nat l) rows ls" for e
  proof -
    have "?xs \<noteq> []"
      using assms(4,5) by (cases rows; cases ls) simp_all
    moreover have "x < e" if "x \<in> set ?xs" for x
    proof -
      from that obtain r l where rl: "(r, l) \<in> set (zip rows ls)" "x = xent_row r l"
        by auto
      from rl(1) \<open>list_all2 (\<lambda>r l. exp (- e) < softmax_row r ! nat l) rows ls\<close>
      have "exp (- e) < softmax_row r ! nat l"
        by (auto simp: list_all2_iff)
      with rng [OF rl(1)] show ?thesis
        unfolding rl(2) by (intro xent_row_small) simp_all
    qed
    ultimately have "sum_list ?xs < e * real (length ?xs)"
      by (rule sum_list_less)
    then have "sum_list ?xs < e * real (length rows)"
      using assms(5) by simp
    then show ?thesis
      using n by (simp add: field_simps)
  qed
  from st cast r nonneg small show ?thesis
    unfolding xs by blast
qed

text \<open>
  The hypotheses of C3 hold for the fed batch of two examples: the loss is a
  non-negative scalar.
\<close>

theorem loss_is_mean_cross_entropy_witness:
  "run fed_session logits_in = Inr (FMat sample_logits) \<and>
   run fed_session labels_in = Inr (I64Vec [3, 1]) \<and>
   class_indices (I64Vec [3, 1]) = Some [3, 1] \<and>
   sample_logits \<noteq> [] \<and> length [3, 1 :: int] = length sample_logits \<and>
   list_all (\<lambda>r. length r = NUM_CLASSES) sample_logits \<and>
   list_all (\<lambda>l. 0 \<le> l \<and> l \<le> 9) [3, 1 :: int] \<and>
   (\<exists>v. run fed_session (loss logits_in labels_in) = Inr (FScalar v) \<and> 0 \<le> v)"
proof -
  have ci: "class_indices (I64Vec [3, 1]) = Some [3, 1]" by simp
  have rng: "\<forall>l \<in> set [3, 1 :: int]. 0 \<le> l \<and> l \<le> 9" by simp
  from loss_is_mean_cross_entropy [OF run_fed_session ci sample_logits_facts(1,2,3) rng]
  have "\<exists>v. run fed_session (loss logits_in labels_in) = Inr (FScalar v) \<and> 0 \<le> v"
    by blast
  with run_fed_session ci sample_logits_facts rng show ?thesis
    by (simp add: list_all_iff)
qed

end
